theory Spec2Isabelle
  imports Main "HOL-Library.Word" "HOL-Library.Monad_Syntax"
begin

unbundle bit_operations_syntax

section \<open>I3C timing utility (stm32h5xx\_util\_i3c.c)\<close>

text \<open>
  The utility computes the timing register fields of the I3C peripheral of the STM32H5
  from the frequency of the kernel clock and the requested bus frequencies. All of its
  arithmetic is on \<open>uint32_t\<close>, apart from the period computation, which is on
  \<open>uint64_t\<close> and is narrowed to \<open>uint32_t\<close>. Both are modelled as machine
  words: \<open>+\<close>, \<open>-\<close> and \<open>*\<close> wrap around, \<open>div\<close> and \<open><\<close> are unsigned.

  A division whose divisor is zero has no value in C: the behaviour is undefined, and
  a run may trap on it. Every division by a variable is therefore a value of type
  \<open>option\<close>, \<open>None\<close> when the divisor is zero, and so is every function that divides:
  \<open>None\<close> says that the call does not come back with a status.
\<close>

type_synonym u8 = "8 word"
type_synonym u32 = "32 word"
type_synonym u64 = "64 word"

subsection \<open>What the file takes from its headers\<close>

text \<open>
  The header of the utility and the low-layer driver header are not among the sources.
  The file uses three of their constants: the two bus types that \<open>busType\<close> is compared
  with, and the position of the SDA hold bit in the TIMINGR1 register. They are parameters
  of the model. The theorems below hold for all values of these parameters; the closed
  ones are stated at one instance of them.
\<close>

record platform =
  I3C_PURE_I3C_BUS :: u32
  I3C_MIXED_BUS :: u32
  I3C_TIMINGR1_SDA_HD_Pos :: nat

text \<open>
  Modelled from the spec: the type \<open>ErrorStatus\<close> of the absent device header. The
  spec gives a success or error status as the result of both entry points; the file
  returns no other value than \<open>SUCCESS\<close> and \<open>ERROR\<close>.
\<close>

datatype ErrorStatus = SUCCESS | ERROR

text \<open>
  Modelled from the spec: the structure \<open>LL_I3C_CtrlBusConfTypeDef\<close> of the absent
  low-layer header. The spec gives six cycle counts of eight bits and the SDA hold
  time, a flag at a fixed bit position; the casts of lines 311 to 319 give the same
  widths, \<open>uint8_t\<close> for the six durations and \<open>uint32_t\<close> for the SDA hold time.
  Fields that the file never touches live in the extension of the record.
\<close>

record LL_I3C_CtrlBusConfTypeDef =
  SCLPPLowDuration :: u8
  SCLI3CHighDuration :: u8
  SCLODLowDuration :: u8
  SCLI2CHighDuration :: u8
  BusFreeDuration :: u8
  BusIdleDuration :: u8
  SDAHoldTime :: u32

text \<open>
  Modelled from the spec: the structure \<open>LL_I3C_TgtBusConfTypeDef\<close> of the absent
  low-layer header, with the one field of eight bits that the spec gives and line 365
  assigns.
\<close>

record LL_I3C_TgtBusConfTypeDef =
  BusAvailableDuration :: u8

subsection \<open>Division, private macros and constants\<close>

text \<open>The operator \<open>/\<close> of C on \<open>uint64_t\<close> and on \<open>uint32_t\<close>.\<close>

definition udiv64 :: "u64 \<Rightarrow> u64 \<Rightarrow> u64 option" where
  "udiv64 x d = (if d = 0 then None else Some (x div d))"

definition udiv32 :: "u32 \<Rightarrow> u32 \<Rightarrow> u32 option" where
  "udiv32 x d = (if d = 0 then None else Some (x div d))"

text \<open>
  \<open>#define DIV_ROUND_CLOSEST(x, d) (((x) + ((d) / 2U)) / (d))\<close>, on \<open>uint32_t\<close>. The
  inner divisor is the literal 2.
\<close>

definition DIV_ROUND_CLOSEST :: "u32 \<Rightarrow> u32 \<Rightarrow> u32 option" where
  "DIV_ROUND_CLOSEST x d = udiv32 (x + d div 2) d"

definition SEC210PSEC :: u64 where "SEC210PSEC = 100000000000"
definition TI3CH_MIN :: u32 where "TI3CH_MIN = 3200"
definition TI3CH_OD_MAX :: u32 where "TI3CH_OD_MAX = 4100"
definition TI3CL_OD_MIN :: u32 where "TI3CL_OD_MIN = 20000"
definition TFMPL_OD_MIN :: u32 where "TFMPL_OD_MIN = 50000"
definition TFML_OD_MIN :: u32 where "TFML_OD_MIN = 130000"
definition TFM_MIN :: u32 where "TFM_MIN = 250000"
definition TSM_MIN :: u32 where "TSM_MIN = 1000000"
definition TI3C_CAS_MIN :: u32 where "TI3C_CAS_MIN = 3840"
definition TCAPA :: u32 where "TCAPA = 35000"

lemmas i3c_constants =
  SEC210PSEC_def TI3CH_MIN_def TI3CH_OD_MAX_def TI3CL_OD_MIN_def TFMPL_OD_MIN_def
  TFML_OD_MIN_def TFM_MIN_def TSM_MIN_def TI3C_CAS_MIN_def TCAPA_def

subsection \<open>The period of a clock, in units of 10 ps\<close>

text \<open>
  The expression of lines 128, 139, 142 and 350:
  \<open>(uint32_t)((SEC210PSEC + ((uint64_t)f / (uint64_t)2)) / (uint64_t)f)\<close>. It divides by
  the frequency, so it has no value at frequency 0.
\<close>

definition period10ps :: "u32 \<Rightarrow> u32 option" where
  "period10ps f = map_option ucast (udiv64 (SEC210PSEC + (ucast f :: u64) div 2) (ucast f))"

subsection \<open>The controller computation, block by block\<close>

text \<open>Lines 114 to 123: the verification of the frequencies against the bus type.\<close>

definition verify_parameters :: "platform \<Rightarrow> u32 \<Rightarrow> u32 \<Rightarrow> u32 \<Rightarrow> u32 \<Rightarrow> ErrorStatus" where
  "verify_parameters P clockSrcFreq i3cFreq i2cFreq busType =
    (let status = SUCCESS;
         status = (if (clockSrcFreq = 0 \<or> i3cFreq = 0) \<and> busType = I3C_PURE_I3C_BUS P
                   then ERROR else status);
         status = (if (clockSrcFreq = 0 \<or> i3cFreq = 0 \<or> i2cFreq = 0) \<and> busType = I3C_MIXED_BUS P
                   then ERROR else status)
     in status)"

text \<open>Line 130: the test made once the period of the clock source is known.\<close>

definition period_check :: "u32 \<Rightarrow> u32 \<Rightarrow> bool" where
  "period_check dutyCycle ti3cclk = (dutyCycle > 50 \<or> ti3cclk = 0)"

text \<open>
  Lines 153 to 206: the SCL high level and the push-pull low level. The result is the
  pair \<open>(sclhi3c, scllpp)\<close>.
\<close>

definition scl_high_low :: "platform \<Rightarrow> u32 \<Rightarrow> u32 \<Rightarrow> u32 \<Rightarrow> u32 \<Rightarrow> (u32 \<times> u32) option" where
  "scl_high_low P busType ti3cclk ti3c_pp_min dutyCycle =
    (if busType = I3C_PURE_I3C_BUS P then do {
       q \<leftarrow> DIV_ROUND_CLOSEST (ti3c_pp_min * dutyCycle) ti3cclk;
       q \<leftarrow> DIV_ROUND_CLOSEST q 100;
       let sclhi3c = q - 1;
       if (sclhi3c + 1) * ti3cclk < TI3CH_MIN then do {
         q \<leftarrow> DIV_ROUND_CLOSEST TI3CH_MIN ti3cclk;
         let sclhi3c = q - 1;
         let sclhi3c = (if (sclhi3c + 1) * ti3cclk < TI3CH_MIN then sclhi3c + 1 else sclhi3c);
         q \<leftarrow> DIV_ROUND_CLOSEST ti3c_pp_min ti3cclk;
         let scllpp = q - (sclhi3c + 1) - 1;
         Some (sclhi3c, scllpp)
       } else do {
         q \<leftarrow> DIV_ROUND_CLOSEST (ti3c_pp_min * dutyCycle) ti3cclk;
         q \<leftarrow> DIV_ROUND_CLOSEST q 100;
         let sclhi3c = q - 1;
         let sclhi3c = (if (sclhi3c + 1) * ti3cclk < TI3CH_MIN then sclhi3c + 1 else sclhi3c);
         q \<leftarrow> DIV_ROUND_CLOSEST (ti3c_pp_min * (100 - dutyCycle)) ti3cclk;
         q \<leftarrow> DIV_ROUND_CLOSEST q 100;
         let scllpp = q - 1;
         Some (sclhi3c, scllpp)
       }
     } else do {
       q \<leftarrow> DIV_ROUND_CLOSEST TI3CH_OD_MAX ti3cclk;
       let sclhi3c = q - 1;
       sclhi3c \<leftarrow> (if (sclhi3c + 1) * ti3cclk < TI3CH_MIN then Some (sclhi3c + 1)
                  else if (sclhi3c + 1) * ti3cclk > TI3CH_OD_MAX then udiv32 TI3CH_OD_MAX ti3cclk
                  else Some sclhi3c);
       q \<leftarrow> DIV_ROUND_CLOSEST (ti3c_pp_min - (sclhi3c + 1) * ti3cclk) ti3cclk;
       let scllpp = q - 1;
       Some (sclhi3c, scllpp)
     })"

text \<open>Lines 208 to 221: the two corrections of \<open>scllpp\<close>, one after the other.\<close>

definition scllpp_correction :: "u32 \<Rightarrow> u32 \<Rightarrow> u32 \<Rightarrow> u32 \<Rightarrow> u32" where
  "scllpp_correction ti3cclk ti3c_pp_min sclhi3c scllpp =
    (let ideal_scllpp = ti3c_pp_min - (sclhi3c + 1) * ti3cclk;
         scllpp = (if (scllpp + 1) * ti3cclk \<ge> ideal_scllpp + ti3cclk div 2 + 1
                   then scllpp - 1 else scllpp);
         scllpp = (if (scllpp + sclhi3c + 1 + 1) * ti3cclk < ideal_scllpp + ti3cclk div 2 + 1
                   then scllpp + 1 else scllpp)
     in scllpp)"

text \<open>
  Lines 223 to 272: the open-drain low level and the I2C high level. The result is the
  pair \<open>(scllod, sclhi2c)\<close>.
\<close>

definition scl_open_drain ::
  "platform \<Rightarrow> u32 \<Rightarrow> u32 \<Rightarrow> u32 \<Rightarrow> u32 \<Rightarrow> u32 \<Rightarrow> u32 \<Rightarrow> (u32 \<times> u32) option" where
  "scl_open_drain P busType ti3cclk ti3c_pp_min ti2c_od_min dutyCycle scllpp =
    (if busType = I3C_PURE_I3C_BUS P then do {
       scllod \<leftarrow>
         (if ti3c_pp_min < TI3CL_OD_MIN then do {
            q \<leftarrow> DIV_ROUND_CLOSEST TI3CL_OD_MIN ti3cclk;
            let scllod = q - 1;
            Some (if (scllod + 1) * ti3cclk < TI3CL_OD_MIN then scllod + 1 else scllod)
          } else Some scllpp);
       scllod \<leftarrow>
         (if (scllod + 1) * ti3cclk < TCAPA then do {
            q \<leftarrow> DIV_ROUND_CLOSEST TCAPA ti3cclk;
            Some (q + 1)
          } else Some scllod);
       let sclhi2c = 0;
       Some (scllod, sclhi2c)
     } else do {
       q \<leftarrow> DIV_ROUND_CLOSEST (ti2c_od_min * (100 - dutyCycle)) ti3cclk;
       q \<leftarrow> DIV_ROUND_CLOSEST q 100;
       let scllod = q - 1;
       scllod \<leftarrow>
         (if ti2c_od_min < TFM_MIN then
            (if (scllod + 1) * ti3cclk < TFMPL_OD_MIN then do {
               q \<leftarrow> DIV_ROUND_CLOSEST TFMPL_OD_MIN ti3cclk;
               Some (q - 1)
             } else Some scllod)
          else
            (if (scllod + 1) * ti3cclk < TFML_OD_MIN then do {
               q \<leftarrow> DIV_ROUND_CLOSEST TFML_OD_MIN ti3cclk;
               Some (q - 1)
             } else Some scllod));
       q \<leftarrow> DIV_ROUND_CLOSEST (ti2c_od_min - (scllod + 1) * ti3cclk) ti3cclk;
       let sclhi2c = q - 1;
       Some (scllod, sclhi2c)
     })"

text \<open>Lines 274 to 285: the clock after start. The divisor is \<open>2U * ti3cclk\<close>.\<close>

definition bus_free :: "platform \<Rightarrow> u32 \<Rightarrow> u32 \<Rightarrow> u32 \<Rightarrow> u32 option" where
  "bus_free P busType ti3cclk scllod =
    (if busType = I3C_PURE_I3C_BUS P then do {
       q \<leftarrow> DIV_ROUND_CLOSEST (TI3C_CAS_MIN + TCAPA) (2 * ti3cclk);
       Some (q + 1)
     } else DIV_ROUND_CLOSEST ((scllod + 1) * ti3cclk + TCAPA) (2 * ti3cclk))"

text \<open>Lines 287 to 296: the hold time of SDA.\<close>

definition sda_hold :: "u32 \<Rightarrow> u32" where
  "sda_hold ti3cclk = (if ti3cclk > 600 then 0 else 1)"

text \<open>Lines 298 and 299, and 361 and 362 of the target: the reference of one microsecond.\<close>

definition one_microsecond :: "u32 \<Rightarrow> u32 option" where
  "one_microsecond ti3cclk = do {
     q \<leftarrow> DIV_ROUND_CLOSEST 100000 ti3cclk;
     Some (q - 2)
   }"

text \<open>The compute variables of the function, as they stand at line 300.\<close>

record scl_computed =
  scllpp :: u32
  sclhi3c :: u32
  scllod :: u32
  sclhi2c :: u32
  free :: u32
  oneus :: u32
  sdahold :: u32

definition scl_computation ::
  "platform \<Rightarrow> u32 \<Rightarrow> u32 \<Rightarrow> u32 \<Rightarrow> u32 \<Rightarrow> u32 \<Rightarrow> scl_computed option" where
  "scl_computation P busType ti3cclk ti3c_pp_min ti2c_od_min dutyCycle = do {
     (hi3c, lpp) \<leftarrow> scl_high_low P busType ti3cclk ti3c_pp_min dutyCycle;
     let lpp = scllpp_correction ti3cclk ti3c_pp_min hi3c lpp;
     (lod, hi2c) \<leftarrow> scl_open_drain P busType ti3cclk ti3c_pp_min ti2c_od_min dutyCycle lpp;
     fr \<leftarrow> bus_free P busType ti3cclk lod;
     let hold = sda_hold ti3cclk;
     us \<leftarrow> one_microsecond ti3cclk;
     Some \<lparr> scllpp = lpp, sclhi3c = hi3c, scllod = lod, sclhi2c = hi2c,
            free = fr, oneus = us, sdahold = hold \<rparr>
   }"

text \<open>Lines 301 and 302: true when a value does not fit the eight bits of its field.\<close>

definition over_8bits :: "scl_computed \<Rightarrow> bool" where
  "over_8bits v =
    (scllpp v > 0xFF \<or> sclhi3c v > 0xFF \<or> scllod v > 0xFF \<or> sclhi2c v > 0xFF \<or>
     free v > 0xFF \<or> oneus v > 0xFF)"

text \<open>Lines 310 to 319: the seven assignments through \<open>pConfig\<close>.\<close>

definition write_config ::
  "platform \<Rightarrow> scl_computed \<Rightarrow> 'a LL_I3C_CtrlBusConfTypeDef_scheme \<Rightarrow> 'a LL_I3C_CtrlBusConfTypeDef_scheme" where
  "write_config P v pConfig =
    pConfig \<lparr> SCLPPLowDuration := ucast (scllpp v),
              SCLI3CHighDuration := ucast (sclhi3c v),
              SCLODLowDuration := ucast (scllod v),
              SCLI2CHighDuration := ucast (sclhi2c v),
              BusFreeDuration := ucast (free v),
              BusIdleDuration := ucast (oneus v),
              SDAHoldTime := push_bit (I3C_TIMINGR1_SDA_HD_Pos P) (sdahold v) \<rparr>"

subsection \<open>The two exported functions\<close>

text \<open>
  \<open>I3C_CtrlTimingComputation\<close>. The structure behind \<open>pConfig\<close> is passed in and
  returned with the status: it comes back as it went in on every path that does not
  reach the assignments. The three periods are computed where the source computes
  them: the period of the clock source once the verification has passed (line 128),
  the other two once the status is still \<open>SUCCESS\<close> after line 130 (lines 139 and 142),
  on a pure bus as well as on a mixed one.
\<close>

definition I3C_CtrlTimingComputation ::
  "platform \<Rightarrow> 'a LL_I3C_CtrlBusConfTypeDef_scheme \<Rightarrow> u32 \<Rightarrow> u32 \<Rightarrow> u32 \<Rightarrow> u32 \<Rightarrow> u32
    \<Rightarrow> (ErrorStatus \<times> 'a LL_I3C_CtrlBusConfTypeDef_scheme) option" where
  "I3C_CtrlTimingComputation P pConfig clockSrcFreq i3cFreq i2cFreq dutyCycle busType = do {
     let status = verify_parameters P clockSrcFreq i3cFreq i2cFreq busType;
     ti3cclk \<leftarrow> (if status = SUCCESS then period10ps clockSrcFreq else Some 0);
     let status = (if status = SUCCESS \<and> period_check dutyCycle ti3cclk then ERROR else status);
     if status = SUCCESS \<and> ti3cclk \<noteq> 0 then do {
       ti3c_pp_min \<leftarrow> period10ps i3cFreq;
       ti2c_od_min \<leftarrow> period10ps i2cFreq;
       if busType \<noteq> I3C_PURE_I3C_BUS P \<and> ti2c_od_min > TSM_MIN then Some (ERROR, pConfig)
       else do {
         v \<leftarrow> scl_computation P busType ti3cclk ti3c_pp_min ti2c_od_min dutyCycle;
         if over_8bits v then Some (ERROR, pConfig)
         else Some (SUCCESS, write_config P v pConfig)
       }
     } else Some (status, pConfig)
   }"

text \<open>\<open>I3C_TgtTimingComputation\<close>.\<close>

definition I3C_TgtTimingComputation ::
  "'a LL_I3C_TgtBusConfTypeDef_scheme \<Rightarrow> u32
    \<Rightarrow> (ErrorStatus \<times> 'a LL_I3C_TgtBusConfTypeDef_scheme) option" where
  "I3C_TgtTimingComputation pConfig clockSrcFreq = do {
     let status = (if clockSrcFreq = 0 then ERROR else SUCCESS);
     ti3cclk \<leftarrow> (if status = SUCCESS then period10ps clockSrcFreq else Some 0);
     let status = (if status = SUCCESS \<and> ti3cclk = 0 then ERROR else status);
     if status = SUCCESS \<and> ti3cclk \<noteq> 0 then do {
       oneus \<leftarrow> one_microsecond ti3cclk;
       Some (status, pConfig \<lparr> BusAvailableDuration := ucast oneus \<rparr>)
     } else Some (status, pConfig)
   }"

subsection \<open>The push-pull period that a configuration realises\<close>

text \<open>
  The peripheral holds SCL low for \<open>SCLPPLowDuration + 1\<close> and high for
  \<open>SCLI3CHighDuration + 1\<close> cycles of its clock (the comment of line 204:
  \<open>tscllpp = (scllpp + 1) x ti3cclk\<close>). These two definitions follow the words of the
  specification: the realised period in units of 10 ps, and its distance from the
  period that was asked for. They are natural numbers, nothing wraps.
\<close>

definition realized_pp_period :: "'a LL_I3C_CtrlBusConfTypeDef_scheme \<Rightarrow> u32 \<Rightarrow> nat" where
  "realized_pp_period cfg ti3cclk =
    (unat (SCLPPLowDuration cfg) + unat (SCLI3CHighDuration cfg) + 2) * unat ti3cclk"

definition pp_period_deviation :: "'a LL_I3C_CtrlBusConfTypeDef_scheme \<Rightarrow> u32 \<Rightarrow> u32 \<Rightarrow> nat" where
  "pp_period_deviation cfg ti3cclk ti3c_pp_min =
    (let realized = realized_pp_period cfg ti3cclk; ideal = unat ti3c_pp_min
     in if ideal \<le> realized then realized - ideal else ideal - realized)"

subsection \<open>Values used in the proofs\<close>

text \<open>
  What a rounded division and the period expression yield when the divisor is not zero.
  The lemmas \<open>DIV_ROUND_CLOSEST_eq\<close> and \<open>period10ps_eq\<close> below tie them to the
  definitions above.
\<close>

definition rounded_quotient :: "u32 \<Rightarrow> u32 \<Rightarrow> u32" where
  "rounded_quotient x d = (x + d div 2) div d"

definition period_value :: "u32 \<Rightarrow> u32" where
  "period_value f = ucast ((SEC210PSEC + (ucast f :: u64) div 2) div ucast f)"

subsection \<open>One instance of the parameters\<close>

text \<open>
  The closed theorems below are stated at this instance: bus types 0 and 1, the SDA hold
  bit at position 28, and output structures that are all zero before the call.
\<close>

definition reference_platform :: platform where
  "reference_platform =
    \<lparr> I3C_PURE_I3C_BUS = 0, I3C_MIXED_BUS = 1, I3C_TIMINGR1_SDA_HD_Pos = 28 \<rparr>"

definition cleared_ctrl_config :: LL_I3C_CtrlBusConfTypeDef where
  "cleared_ctrl_config =
    \<lparr> SCLPPLowDuration = 0, SCLI3CHighDuration = 0, SCLODLowDuration = 0,
      SCLI2CHighDuration = 0, BusFreeDuration = 0, BusIdleDuration = 0, SDAHoldTime = 0 \<rparr>"

definition cleared_tgt_config :: LL_I3C_TgtBusConfTypeDef where
  "cleared_tgt_config = \<lparr> BusAvailableDuration = 0 \<rparr>"

section \<open>Lemmas shared by the theorems\<close>

subsection \<open>Divisions that have a value\<close>

lemma DIV_ROUND_CLOSEST_eq:
  "DIV_ROUND_CLOSEST x d = (if d = 0 then None else Some (rounded_quotient x d))"
  by (simp add: DIV_ROUND_CLOSEST_def udiv32_def rounded_quotient_def)

lemma DIV_ROUND_CLOSEST_Some [simp]:
  "d \<noteq> 0 \<Longrightarrow> DIV_ROUND_CLOSEST x d = Some (rounded_quotient x d)"
  by (simp add: DIV_ROUND_CLOSEST_eq)

lemma ucast_u64_eq_0 [simp]: "(ucast (f :: u32) :: u64) = 0 \<longleftrightarrow> f = 0"
proof -
  have "unat (ucast f :: u64) = unat f"
    using unsigned_less [of f, where ?'a = nat] by (simp add: unsigned_ucast_eq take_bit_eq_mod)
  then show ?thesis
    by (metis unat_eq_0)
qed

lemma period10ps_eq:
  "period10ps f = (if f = 0 then None else Some (period_value f))"
  by (simp add: period10ps_def udiv64_def period_value_def)

lemma period10ps_Some [simp]: "f \<noteq> 0 \<Longrightarrow> period10ps f = Some (period_value f)"
  by (simp add: period10ps_eq)

lemma period10ps_0 [simp]: "period10ps 0 = None"
  by (simp add: period10ps_eq)

lemma period10ps_SomeD:
  assumes "period10ps f = Some t"
  shows "f \<noteq> 0" and "t = period_value f"
  using assms by (simp_all add: period10ps_eq split: if_splits)

lemma one_microsecond_eq:
  "one_microsecond t = (if t = 0 then None else Some (rounded_quotient 100000 t - 2))"
  by (simp add: one_microsecond_def DIV_ROUND_CLOSEST_eq)

subsection \<open>Reading the words as numbers\<close>

lemma unat_period_value:
  assumes "f \<noteq> 0"
  shows "unat (period_value f) = ((100000000000 + unat f div 2) div unat f) mod 4294967296"
proof -
  have lt: "unat f < 4294967296"
    using unsigned_less [of f, where ?'a = nat] by simp
  have uc: "unat (ucast f :: u64) = unat f"
    using lt by (simp add: unsigned_ucast_eq take_bit_eq_mod)
  have h: "unat ((ucast f :: u64) div 2) = unat f div 2"
    by (simp add: unat_div uc)
  have s: "unat (100000000000 + (ucast f :: u64) div 2) = 100000000000 + unat f div 2"
    using lt h by (simp add: unat_word_ariths)
  have "unat (period_value f) =
      unat (100000000000 + (ucast f :: u64) div 2) div unat (ucast f :: u64) mod 4294967296"
    by (simp add: period_value_def SEC210PSEC_def unsigned_ucast_eq take_bit_eq_mod unat_div)
  then show ?thesis by (simp only: s uc)
qed

lemma period_quotient_upto:
  "list_all (\<lambda>i::int. 23 \<le> ((100000000000 + i div 2) div i) mod 4294967296) [1..23]"
  by (simp add: upto_rec1)

lemma period_quotient_small:
  fixes n :: nat
  assumes "0 < n" "n < 24"
  shows "23 \<le> ((100000000000 + n div 2) div n) mod 4294967296"
proof -
  from assms have "int n \<in> set [1..23]"
    by simp
  with period_quotient_upto
  have "23 \<le> ((100000000000 + int n div 2) div int n) mod 4294967296"
    unfolding list_all_iff by blast
  also have "((100000000000 + int n div 2) div int n) mod 4294967296 =
      int (((100000000000 + n div 2) div n) mod 4294967296)"
    by (simp add: zdiv_int zmod_int)
  finally show ?thesis
    by simp
qed

lemma period_quotient_large:
  fixes n :: nat
  assumes "24 \<le> n" "n < 4294967296"
  shows "(100000000000 + n div 2) div n < 4294967296"
    and "23 \<le> (100000000000 + n div 2) div n"
proof -
  have "100000000000 + n div 2 < 4294967296 * n"
    using assms by linarith
  then show "(100000000000 + n div 2) div n < 4294967296"
    using assms less_mult_imp_div_less [of "100000000000 + n div 2" 4294967296 n] by simp
  have "23 * n \<le> 100000000000 + n div 2"
    using assms by simp
  then show "23 \<le> (100000000000 + n div 2) div n"
    using assms by (simp add: less_eq_div_iff_mult_less_eq)
qed

lemma period_value_at_least_23:
  assumes "f \<noteq> 0"
  shows "23 \<le> unat (period_value f)"
proof (cases "unat f < 24")
  case True
  moreover have "0 < unat f"
    using assms by (simp add: unat_gt_0)
  ultimately show ?thesis
    using period_quotient_small [of "unat f"] by (simp add: unat_period_value [OF assms])
next
  case False
  moreover have "unat f < 4294967296"
    using unsigned_less [of f, where ?'a = nat] by simp
  ultimately show ?thesis
    using period_quotient_large [of "unat f"] by (simp add: unat_period_value [OF assms])
qed

lemma period_value_nonzero:
  assumes "f \<noteq> 0"
  shows "period_value f \<noteq> 0"
  using period_value_at_least_23 [OF assms] by auto

lemma unat_one_microsecond:
  assumes "t \<noteq> 0"
  shows "unat (rounded_quotient 100000 t) = (100000 + unat t div 2) div unat t"
proof -
  have lt: "unat t < 4294967296"
    using unsigned_less [of t, where ?'a = nat] by simp
  have h: "unat (t div 2) = unat t div 2"
    by (simp add: unat_div)
  have s: "unat (100000 + t div 2) = 100000 + unat t div 2"
    using lt h by (simp add: unat_word_ariths)
  show ?thesis
    by (simp add: rounded_quotient_def unat_div s)
qed

lemma unat_ucast_u8:
  fixes x :: u32
  assumes "\<not> 0xFF < x"
  shows "unat (ucast x :: u8) = unat x"
proof -
  have "unat x \<le> 255"
    using assms by (simp add: word_less_nat_alt)
  then show ?thesis
    by (simp add: unsigned_ucast_eq take_bit_eq_mod)
qed

lemma rounded_quotient_100000_ge_2:
  assumes "rounded_quotient 100000 t - 2 \<le> 255"
  shows "2 \<le> rounded_quotient 100000 t"
proof (rule ccontr)
  assume "\<not> 2 \<le> rounded_quotient 100000 t"
  then have "rounded_quotient 100000 t = 0 \<or> rounded_quotient 100000 t = 1"
    by unat_arith
  then show False
    using assms by (auto simp add: word_le_nat_alt unsigned_minus_1_eq_mask mask_eq_exp_minus_1)
qed

subsection \<open>The paths of the two functions\<close>

lemma verify_parameters_cases:
  "verify_parameters P clockSrcFreq i3cFreq i2cFreq busType = SUCCESS \<or>
   verify_parameters P clockSrcFreq i3cFreq i2cFreq busType = ERROR"
  by (cases "verify_parameters P clockSrcFreq i3cFreq i2cFreq busType") simp_all

lemma verify_parameters_SUCCESS:
  "verify_parameters P clockSrcFreq i3cFreq i2cFreq busType = SUCCESS \<longleftrightarrow>
    \<not> ((clockSrcFreq = 0 \<or> i3cFreq = 0) \<and> busType = I3C_PURE_I3C_BUS P) \<and>
    \<not> ((clockSrcFreq = 0 \<or> i3cFreq = 0 \<or> i2cFreq = 0) \<and> busType = I3C_MIXED_BUS P)"
  by (simp add: verify_parameters_def)

lemma ctrl_rejected:
  assumes "verify_parameters P clockSrcFreq i3cFreq i2cFreq busType = ERROR"
  shows "I3C_CtrlTimingComputation P pConfig clockSrcFreq i3cFreq i2cFreq dutyCycle busType =
    Some (ERROR, pConfig)"
  by (simp add: I3C_CtrlTimingComputation_def assms)

lemma ctrl_no_clock_period:
  assumes "verify_parameters P clockSrcFreq i3cFreq i2cFreq busType = SUCCESS"
    and "period10ps clockSrcFreq = None"
  shows "I3C_CtrlTimingComputation P pConfig clockSrcFreq i3cFreq i2cFreq dutyCycle busType = None"
  by (simp add: I3C_CtrlTimingComputation_def assms)

lemma ctrl_period_check:
  assumes "verify_parameters P clockSrcFreq i3cFreq i2cFreq busType = SUCCESS"
    and "period10ps clockSrcFreq = Some t"
    and "period_check dutyCycle t"
  shows "I3C_CtrlTimingComputation P pConfig clockSrcFreq i3cFreq i2cFreq dutyCycle busType =
    Some (ERROR, pConfig)"
  by (simp add: I3C_CtrlTimingComputation_def assms)

lemma ctrl_computing:
  assumes "verify_parameters P clockSrcFreq i3cFreq i2cFreq busType = SUCCESS"
    and "period10ps clockSrcFreq = Some t"
    and "\<not> period_check dutyCycle t"
  shows "I3C_CtrlTimingComputation P pConfig clockSrcFreq i3cFreq i2cFreq dutyCycle busType = do {
      ti3c_pp_min \<leftarrow> period10ps i3cFreq;
      ti2c_od_min \<leftarrow> period10ps i2cFreq;
      if busType \<noteq> I3C_PURE_I3C_BUS P \<and> ti2c_od_min > TSM_MIN then Some (ERROR, pConfig)
      else do {
        v \<leftarrow> scl_computation P busType t ti3c_pp_min ti2c_od_min dutyCycle;
        if over_8bits v then Some (ERROR, pConfig)
        else Some (SUCCESS, write_config P v pConfig)
      }
    }"
proof -
  from assms(3) have "t \<noteq> 0"
    by (simp add: period_check_def)
  then show ?thesis
    by (simp add: I3C_CtrlTimingComputation_def assms)
qed

lemma ctrl_computed:
  assumes "verify_parameters P clockSrcFreq i3cFreq i2cFreq busType = SUCCESS"
    and "period10ps clockSrcFreq = Some t"
    and "\<not> period_check dutyCycle t"
    and "period10ps i3cFreq = Some pp"
    and "period10ps i2cFreq = Some od"
    and "\<not> (busType \<noteq> I3C_PURE_I3C_BUS P \<and> od > TSM_MIN)"
    and "scl_computation P busType t pp od dutyCycle = Some v"
  shows "I3C_CtrlTimingComputation P pConfig clockSrcFreq i3cFreq i2cFreq dutyCycle busType =
    (if over_8bits v then Some (ERROR, pConfig) else Some (SUCCESS, write_config P v pConfig))"
  using assms(6) by (auto simp add: ctrl_computing [OF assms(1-3)] assms(4,5,7))

lemma ctrl_success:
  assumes "I3C_CtrlTimingComputation P pConfig clockSrcFreq i3cFreq i2cFreq dutyCycle busType =
    Some (SUCCESS, cfg)"
  obtains t pp od v where
    "verify_parameters P clockSrcFreq i3cFreq i2cFreq busType = SUCCESS"
    "period10ps clockSrcFreq = Some t" "\<not> period_check dutyCycle t"
    "period10ps i3cFreq = Some pp" "period10ps i2cFreq = Some od"
    "\<not> (busType \<noteq> I3C_PURE_I3C_BUS P \<and> od > TSM_MIN)"
    "scl_computation P busType t pp od dutyCycle = Some v"
    "\<not> over_8bits v" "cfg = write_config P v pConfig"
proof -
  have ok: "verify_parameters P clockSrcFreq i3cFreq i2cFreq busType = SUCCESS"
    using verify_parameters_cases [of P clockSrcFreq i3cFreq i2cFreq busType]
      ctrl_rejected [of P clockSrcFreq i3cFreq i2cFreq busType pConfig dutyCycle] assms
    by auto
  obtain t where t: "period10ps clockSrcFreq = Some t"
    using ctrl_no_clock_period [OF ok, of pConfig dutyCycle] assms
    by (cases "period10ps clockSrcFreq") auto
  have chk: "\<not> period_check dutyCycle t"
    using ctrl_period_check [OF ok t, of dutyCycle pConfig] assms by auto
  note eq = assms [unfolded ctrl_computing [OF ok t chk]]
  obtain pp where pp: "period10ps i3cFreq = Some pp"
    using eq by (cases "period10ps i3cFreq") auto
  obtain od where od: "period10ps i2cFreq = Some od"
    using eq pp by (cases "period10ps i2cFreq") auto
  have mixed: "\<not> (busType \<noteq> I3C_PURE_I3C_BUS P \<and> od > TSM_MIN)"
    using eq pp od by (auto split: if_splits)
  obtain v where v: "scl_computation P busType t pp od dutyCycle = Some v"
    using eq pp od mixed by (cases "scl_computation P busType t pp od dutyCycle") auto
  have "\<not> over_8bits v" "cfg = write_config P v pConfig"
    using eq pp od mixed v by (auto split: if_splits)
  with ok t chk pp od mixed v show thesis
    by (rule that)
qed

lemma ctrl_error_unwritten:
  assumes "I3C_CtrlTimingComputation P pConfig clockSrcFreq i3cFreq i2cFreq dutyCycle busType =
    Some (ERROR, cfg)"
  shows "cfg = pConfig"
proof (cases "verify_parameters P clockSrcFreq i3cFreq i2cFreq busType")
  case ERROR
  with assms show ?thesis
    by (simp add: ctrl_rejected)
next
  case SUCCESS
  note ok = this
  show ?thesis
  proof (cases "period10ps clockSrcFreq")
    case None
    with assms ok show ?thesis
      by (simp add: ctrl_no_clock_period)
  next
    case (Some t)
    show ?thesis
    proof (cases "period_check dutyCycle t")
      case True
      with assms ok Some show ?thesis
        by (simp add: ctrl_period_check)
    next
      case False
      note eq = assms [unfolded ctrl_computing [OF ok Some False]]
      then show ?thesis
        by (auto simp add: bind_eq_Some_conv split: if_splits)
    qed
  qed
qed

lemma ctrl_over_8bits:
  assumes "period10ps clockSrcFreq = Some t"
    and "period10ps i3cFreq = Some pp"
    and "period10ps i2cFreq = Some od"
    and "scl_computation P busType t pp od dutyCycle = Some v"
    and "over_8bits v"
  shows "I3C_CtrlTimingComputation P pConfig clockSrcFreq i3cFreq i2cFreq dutyCycle busType =
    Some (ERROR, pConfig)"
proof (cases "verify_parameters P clockSrcFreq i3cFreq i2cFreq busType")
  case ERROR
  then show ?thesis
    by (simp add: ctrl_rejected)
next
  case SUCCESS
  show ?thesis
  proof (cases "period_check dutyCycle t")
    case True
    with SUCCESS assms(1) show ?thesis
      by (simp add: ctrl_period_check)
  next
    case False
    show ?thesis
      by (simp add: ctrl_computing [OF SUCCESS assms(1) False] assms(2-5))
  qed
qed

lemma scl_computation_Some:
  assumes "scl_computation P busType t pp od dutyCycle = Some v"
  obtains h l where
    "scl_high_low P busType t pp dutyCycle = Some (h, l)"
    "sclhi3c v = h" "scllpp v = scllpp_correction t pp h l"
    "one_microsecond t = Some (oneus v)" "sdahold v = sda_hold t"
proof -
  from assms obtain h l lod hi2c fr us where
    "scl_high_low P busType t pp dutyCycle = Some (h, l)"
    "one_microsecond t = Some us"
    "v = \<lparr> scllpp = scllpp_correction t pp h l, sclhi3c = h, scllod = lod, sclhi2c = hi2c,
           free = fr, oneus = us, sdahold = sda_hold t \<rparr>"
    unfolding scl_computation_def
    by (auto simp add: bind_eq_Some_conv Let_def split: prod.splits)
  then show thesis
    by (intro that [of h l]) simp_all
qed

lemma one_microsecond_SomeD:
  assumes "one_microsecond t = Some us"
  shows "t \<noteq> 0" and "us = rounded_quotient 100000 t - 2"
  using assms by (simp_all add: one_microsecond_eq split: if_splits)

lemma tgt_unfold:
  "I3C_TgtTimingComputation tConfig clockSrcFreq =
    (if clockSrcFreq = 0 then Some (ERROR, tConfig)
     else Some (SUCCESS,
       tConfig \<lparr> BusAvailableDuration := ucast (rounded_quotient 100000 (period_value clockSrcFreq) - 2) \<rparr>))"
proof (cases "clockSrcFreq = 0")
  case True
  then show ?thesis
    by (simp add: I3C_TgtTimingComputation_def)
next
  case False
  then have "period_value clockSrcFreq \<noteq> 0"
    by (rule period_value_nonzero)
  with False show ?thesis
    by (simp add: I3C_TgtTimingComputation_def one_microsecond_eq)
qed

subsection \<open>The blocks at a clock source of 48 MHz\<close>

lemmas division_defs = udiv32_def DIV_ROUND_CLOSEST_def

lemma period_48MHz: "period10ps 48000000 = Some 2083"
  by (simp add: period10ps_def udiv64_def SEC210PSEC_def)

lemma period_12500kHz: "period10ps 12500000 = Some 8000"
  by (simp add: period10ps_def udiv64_def SEC210PSEC_def)

lemma period_1MHz: "period10ps 1000000 = Some 100000"
  by (simp add: period10ps_def udiv64_def SEC210PSEC_def)

lemma period_1164Hz: "period10ps 1164 = Some 85910653"
  by (simp add: period10ps_def udiv64_def SEC210PSEC_def)

lemma period_1kHz: "period10ps 1000 = Some 100000000"
  by (simp add: period10ps_def udiv64_def SEC210PSEC_def)

lemma period_50kHz: "period10ps 50000 = Some 2000000"
  by (simp add: period10ps_def udiv64_def SEC210PSEC_def)

lemma open_drain_48MHz:
  "scl_open_drain P (I3C_PURE_I3C_BUS P) 2083 8000 od 50 1 = Some (18, 0)"
  "scl_open_drain P (I3C_PURE_I3C_BUS P) 2083 85910653 od 50 3 = Some (18, 0)"
  "scl_open_drain P (I3C_PURE_I3C_BUS P) 2083 2000000 od 50 479 = Some (479, 0)"
  by (simp_all add: scl_open_drain_def division_defs i3c_constants)

lemma bus_free_48MHz: "bus_free P (I3C_PURE_I3C_BUS P) 2083 lod = Some 10"
  by (simp add: bus_free_def division_defs i3c_constants)

lemma one_microsecond_48MHz: "one_microsecond 2083 = Some 46"
  by (simp add: one_microsecond_def division_defs)

lemma high_low_12500kHz: "scl_high_low P (I3C_PURE_I3C_BUS P) 2083 8000 50 = Some (1, 1)"
  by (simp add: scl_high_low_def division_defs i3c_constants)

lemma correction_12500kHz: "scllpp_correction 2083 8000 1 1 = 1"
  by (simp add: scllpp_correction_def Let_def)

lemma computation_12500kHz:
  "scl_computation P (I3C_PURE_I3C_BUS P) 2083 8000 od 50 =
    Some \<lparr> scllpp = 1, sclhi3c = 1, scllod = 18, sclhi2c = 0, free = 10, oneus = 46, sdahold = 0 \<rparr>"
  by (simp add: scl_computation_def high_low_12500kHz correction_12500kHz open_drain_48MHz
      bus_free_48MHz one_microsecond_48MHz sda_hold_def)

lemma high_low_1164Hz: "scl_high_low P (I3C_PURE_I3C_BUS P) 2083 85910653 50 = Some (2, 2)"
  by (simp add: scl_high_low_def division_defs i3c_constants)

lemma correction_1164Hz: "scllpp_correction 2083 85910653 2 2 = 3"
  by (simp add: scllpp_correction_def Let_def)

lemma computation_1164Hz:
  "scl_computation P (I3C_PURE_I3C_BUS P) 2083 85910653 od 50 =
    Some \<lparr> scllpp = 3, sclhi3c = 2, scllod = 18, sclhi2c = 0, free = 10, oneus = 46, sdahold = 0 \<rparr>"
  by (simp add: scl_computation_def high_low_1164Hz correction_1164Hz open_drain_48MHz
      bus_free_48MHz one_microsecond_48MHz sda_hold_def)

lemma high_low_50kHz: "scl_high_low P (I3C_PURE_I3C_BUS P) 2083 2000000 50 = Some (479, 479)"
  by (simp add: scl_high_low_def division_defs i3c_constants)

lemma correction_50kHz: "scllpp_correction 2083 2000000 479 479 = 479"
  by (simp add: scllpp_correction_def Let_def)

lemma computation_50kHz:
  "scl_computation P (I3C_PURE_I3C_BUS P) 2083 2000000 od 50 =
    Some \<lparr> scllpp = 479, sclhi3c = 479, scllod = 479, sclhi2c = 0, free = 10, oneus = 46,
           sdahold = 0 \<rparr>"
  by (simp add: scl_computation_def high_low_50kHz correction_50kHz open_drain_48MHz
      bus_free_48MHz one_microsecond_48MHz sda_hold_def)

lemma verify_nonzero:
  assumes "clk \<noteq> 0" "i3c \<noteq> 0" "i2c \<noteq> 0"
  shows "verify_parameters P clk i3c i2c busType = SUCCESS"
  using assms by (simp add: verify_parameters_def)

lemma verify_pure_bus:
  assumes "I3C_PURE_I3C_BUS P \<noteq> I3C_MIXED_BUS P" "clk \<noteq> 0" "i3c \<noteq> 0"
  shows "verify_parameters P clk i3c i2c (I3C_PURE_I3C_BUS P) = SUCCESS"
  using assms by (simp add: verify_parameters_def)

lemma period_check_48MHz: "\<not> period_check 50 2083"
  by (simp add: period_check_def)

lemma ctrl_48MHz_12500kHz:
  "I3C_CtrlTimingComputation P pConfig 48000000 12500000 1000000 50 (I3C_PURE_I3C_BUS P) =
    Some (SUCCESS, write_config P
       \<lparr> scllpp = 1, sclhi3c = 1, scllod = 18, sclhi2c = 0, free = 10, oneus = 46, sdahold = 0 \<rparr>
       pConfig)"
proof -
  have "verify_parameters P 48000000 12500000 1000000 (I3C_PURE_I3C_BUS P) = SUCCESS"
    by (rule verify_nonzero) simp_all
  from ctrl_computed [OF this period_48MHz period_check_48MHz period_12500kHz period_1MHz _
      computation_12500kHz]
  show ?thesis
    by (simp add: over_8bits_def)
qed

lemma ctrl_48MHz_1164Hz:
  "I3C_CtrlTimingComputation P pConfig 48000000 1164 1000000 50 (I3C_PURE_I3C_BUS P) =
    Some (SUCCESS, write_config P
       \<lparr> scllpp = 3, sclhi3c = 2, scllod = 18, sclhi2c = 0, free = 10, oneus = 46, sdahold = 0 \<rparr>
       pConfig)"
proof -
  have "verify_parameters P 48000000 1164 1000000 (I3C_PURE_I3C_BUS P) = SUCCESS"
    by (rule verify_nonzero) simp_all
  from ctrl_computed [OF this period_48MHz period_check_48MHz period_1164Hz period_1MHz _
      computation_1164Hz]
  show ?thesis
    by (simp add: over_8bits_def)
qed

lemma ctrl_48MHz_50kHz:
  "I3C_CtrlTimingComputation P pConfig 48000000 50000 1000000 50 (I3C_PURE_I3C_BUS P) =
    Some (ERROR, pConfig)"
  by (rule ctrl_over_8bits [OF period_48MHz period_50kHz period_1MHz computation_50kHz])
     (simp add: over_8bits_def)

subsection \<open>The blocks at a clock source of 166666667 Hz\<close>

lemma period_166666667Hz: "period10ps 166666667 = Some 600"
  by (simp add: period10ps_def udiv64_def SEC210PSEC_def)

lemma high_low_600: "scl_high_low P (I3C_PURE_I3C_BUS P) 600 8000 50 = Some (6, 6)"
  by (simp add: scl_high_low_def division_defs i3c_constants)

lemma correction_600: "scllpp_correction 600 8000 6 6 = 5"
  by (simp add: scllpp_correction_def Let_def)

lemma open_drain_600: "scl_open_drain P (I3C_PURE_I3C_BUS P) 600 8000 od 50 5 = Some (59, 0)"
  by (simp add: scl_open_drain_def division_defs i3c_constants)

lemma bus_free_600: "bus_free P (I3C_PURE_I3C_BUS P) 600 lod = Some 33"
  by (simp add: bus_free_def division_defs i3c_constants)

lemma one_microsecond_600: "one_microsecond 600 = Some 165"
  by (simp add: one_microsecond_def division_defs)

lemma computation_600:
  "scl_computation P (I3C_PURE_I3C_BUS P) 600 8000 od 50 =
    Some \<lparr> scllpp = 5, sclhi3c = 6, scllod = 59, sclhi2c = 0, free = 33, oneus = 165, sdahold = 1 \<rparr>"
  by (simp add: scl_computation_def high_low_600 correction_600 open_drain_600
      bus_free_600 one_microsecond_600 sda_hold_def)

lemma ctrl_166666667Hz:
  "I3C_CtrlTimingComputation P pConfig 166666667 12500000 1000000 50 (I3C_PURE_I3C_BUS P) =
    Some (SUCCESS, write_config P
       \<lparr> scllpp = 5, sclhi3c = 6, scllod = 59, sclhi2c = 0, free = 33, oneus = 165, sdahold = 1 \<rparr>
       pConfig)"
proof -
  have ok: "verify_parameters P 166666667 12500000 1000000 (I3C_PURE_I3C_BUS P) = SUCCESS"
    by (rule verify_nonzero) simp_all
  have chk: "\<not> period_check 50 600"
    by (simp add: period_check_def)
  from ctrl_computed [OF ok period_166666667Hz chk period_12500kHz period_1MHz _ computation_600]
  show ?thesis
    by (simp add: over_8bits_def)
qed

subsection \<open>The instance of the parameters\<close>

lemma reference_platform_sel:
  "I3C_PURE_I3C_BUS reference_platform = 0"
  "I3C_MIXED_BUS reference_platform = 1"
  "I3C_TIMINGR1_SDA_HD_Pos reference_platform = 28"
  by (simp_all add: reference_platform_def)

lemma reference_bus_types: "I3C_PURE_I3C_BUS reference_platform \<noteq> I3C_MIXED_BUS reference_platform"
  by (simp add: reference_platform_def)

section \<open>The claims\<close>

text \<open>
  C1. The claim: with a clock source of 48 MHz, a requested I3C frequency of 12.5 MHz,
  an I2C frequency of 0, a duty cycle of 50 percent and a pure I3C bus, the controller
  computation returns \<open>SUCCESS\<close> and writes \<open>SCLPPLowDuration = 1\<close>,
  \<open>SCLI3CHighDuration = 1\<close>, \<open>SCLODLowDuration = 18\<close>, \<open>SCLI2CHighDuration = 0\<close>,
  \<open>BusFreeDuration = 10\<close>, \<open>BusIdleDuration = 46\<close> and an \<open>SDAHoldTime\<close> of 0. The code
  does not keep it. The verification of line 115 lets an I2C frequency of 0 pass on a
  pure bus, and line 142 then divides by it: at this very input the call has no result.
  With any other I2C frequency, and the two bus type constants different, the call
  returns \<open>SUCCESS\<close> with exactly the seven values of the claim.
\<close>

theorem C1_scenario_divides_by_zero:
  assumes "I3C_PURE_I3C_BUS P \<noteq> I3C_MIXED_BUS P"
  shows "I3C_CtrlTimingComputation P pConfig 48000000 12500000 i2cFreq 50 (I3C_PURE_I3C_BUS P) =
    (if i2cFreq = 0 then None
     else Some (SUCCESS,
       pConfig \<lparr> SCLPPLowDuration := 1, SCLI3CHighDuration := 1, SCLODLowDuration := 18,
                 SCLI2CHighDuration := 0, BusFreeDuration := 10, BusIdleDuration := 46,
                 SDAHoldTime := 0 \<rparr>))"
proof -
  have ok: "verify_parameters P 48000000 12500000 i2cFreq (I3C_PURE_I3C_BUS P) = SUCCESS"
    by (rule verify_pure_bus [OF assms]) simp_all
  note path = ctrl_computing [OF ok period_48MHz period_check_48MHz]
  show ?thesis
  proof (cases "i2cFreq = 0")
    case True
    then show ?thesis
      unfolding path by (simp add: period_12500kHz)
  next
    case False
    then show ?thesis
      unfolding path
      by (simp add: period_12500kHz computation_12500kHz over_8bits_def write_config_def)
  qed
qed

theorem C1_witness:
  "I3C_PURE_I3C_BUS reference_platform \<noteq> I3C_MIXED_BUS reference_platform \<and>
   I3C_CtrlTimingComputation reference_platform cleared_ctrl_config 48000000 12500000 0 50 0 = None \<and>
   I3C_CtrlTimingComputation reference_platform cleared_ctrl_config 48000000 12500000 1000000 50 0 =
     Some (SUCCESS, \<lparr> SCLPPLowDuration = 1, SCLI3CHighDuration = 1, SCLODLowDuration = 18,
                      SCLI2CHighDuration = 0, BusFreeDuration = 10, BusIdleDuration = 46,
                      SDAHoldTime = 0 \<rparr>)"
  using C1_scenario_divides_by_zero [of reference_platform cleared_ctrl_config 0]
    C1_scenario_divides_by_zero [of reference_platform cleared_ctrl_config 1000000]
  by (simp add: reference_platform_sel cleared_ctrl_config_def)

text \<open>
  C2, as amended. Whenever the controller computation returns \<open>SUCCESS\<close>, the period of
  the clock source exists and the field \<open>BusIdleDuration\<close> equals
  \<open>round(100000 / ClockPeriod) - 2\<close>, where the division rounds half up, \<open>ClockPeriod\<close>
  is the period of the clock source in units of 10 ps, and the rounded quotient is at
  least 2, so that nothing wraps. The constant of the code is \<open>100000\<close>, one microsecond
  in units of 10 ps, and the field is written on \<open>SUCCESS\<close> only.
\<close>

theorem C2_bus_idle_duration:
  assumes "I3C_CtrlTimingComputation P pConfig clockSrcFreq i3cFreq i2cFreq dutyCycle busType
             = Some (SUCCESS, cfg)"
  shows "\<exists>t. period10ps clockSrcFreq = Some t \<and>
           2 \<le> (100000 + unat t div 2) div unat t \<and>
           unat (BusIdleDuration cfg) = (100000 + unat t div 2) div unat t - 2"
proof -
  from assms obtain t pp od v where
    t: "period10ps clockSrcFreq = Some t" and
    v: "scl_computation P busType t pp od dutyCycle = Some v" and
    fit: "\<not> over_8bits v" and
    cfg: "cfg = write_config P v pConfig"
    by (rule ctrl_success)
  from v have us: "one_microsecond t = Some (oneus v)"
    by (rule scl_computation_Some)
  let ?q = "rounded_quotient 100000 t"
  have nz: "t \<noteq> 0" and one: "oneus v = ?q - 2"
    using one_microsecond_SomeD [OF us] by simp_all
  have le: "?q - 2 \<le> 255"
    using fit by (simp add: over_8bits_def one not_less)
  then have q2: "2 \<le> ?q"
    by (rule rounded_quotient_100000_ge_2)
  then have sub: "unat (?q - 2) = unat ?q - 2"
    by (simp add: unat_sub)
  have "unat (?q - 2) \<le> 255"
    using le by (simp add: word_le_nat_alt)
  then have uc: "unat (ucast (?q - 2) :: u8) = unat ?q - 2"
    using sub by (simp add: unsigned_ucast_eq take_bit_eq_mod)
  have fld: "BusIdleDuration cfg = ucast (?q - 2)"
    unfolding cfg by (simp add: write_config_def one)
  from q2 have "2 \<le> unat ?q"
    by (simp add: word_le_nat_alt)
  then have "2 \<le> (100000 + unat t div 2) div unat t \<and>
      unat (BusIdleDuration cfg) = (100000 + unat t div 2) div unat t - 2"
    using uc fld unat_one_microsecond [OF nz] by simp
  with t show ?thesis
    by blast
qed

theorem C2_witness:
  "I3C_CtrlTimingComputation reference_platform cleared_ctrl_config 48000000 12500000 1000000 50 0 =
     Some (SUCCESS, \<lparr> SCLPPLowDuration = 1, SCLI3CHighDuration = 1, SCLODLowDuration = 18,
                      SCLI2CHighDuration = 0, BusFreeDuration = 10, BusIdleDuration = 46,
                      SDAHoldTime = 0 \<rparr>) \<and>
   period10ps 48000000 = Some 2083 \<and>
   unat (46 :: u8) = (100000 + unat (2083 :: u32) div 2) div unat (2083 :: u32) - 2"
proof -
  have r: "I3C_CtrlTimingComputation reference_platform cleared_ctrl_config 48000000 12500000
      1000000 50 0 =
     Some (SUCCESS, \<lparr> SCLPPLowDuration = 1, SCLI3CHighDuration = 1, SCLODLowDuration = 18,
                      SCLI2CHighDuration = 0, BusFreeDuration = 10, BusIdleDuration = 46,
                      SDAHoldTime = 0 \<rparr>)"
    using ctrl_48MHz_12500kHz [of reference_platform cleared_ctrl_config]
    by (simp add: reference_platform_sel cleared_ctrl_config_def write_config_def)
  show ?thesis
    using r C2_bus_idle_duration [OF r] by (simp add: period_48MHz)
qed

text \<open>
  C2 as it is written fails twice. With a clock source of 48 MHz, a requested I3C
  frequency of 12.5 MHz and an I2C frequency of 1 MHz on a pure bus, the computation
  succeeds with a \<open>BusIdleDuration\<close> of 46, while \<open>round(10000000 / 2083) - 2\<close> is 4799.
  With a requested I3C frequency of 50 kHz instead, the verification passes and the
  period of the clock source is 2083, not zero, but the counts are 479, the computation
  returns \<open>ERROR\<close>, and the field keeps the 0 it held before the call, which is neither
  4799 nor 46.
\<close>

theorem C2_counterexample:
  "(I3C_CtrlTimingComputation reference_platform cleared_ctrl_config 48000000 12500000 1000000 50 0 =
      Some (SUCCESS, \<lparr> SCLPPLowDuration = 1, SCLI3CHighDuration = 1, SCLODLowDuration = 18,
                       SCLI2CHighDuration = 0, BusFreeDuration = 10, BusIdleDuration = 46,
                       SDAHoldTime = 0 \<rparr>) \<and>
    period10ps 48000000 = Some 2083 \<and>
    unat (46 :: u8) \<noteq> (10000000 + unat (2083 :: u32) div 2) div unat (2083 :: u32) - 2) \<and>
   (verify_parameters reference_platform 48000000 50000 1000000 0 = SUCCESS \<and>
    \<not> period_check 50 2083 \<and>
    I3C_CtrlTimingComputation reference_platform cleared_ctrl_config 48000000 50000 1000000 50 0 =
      Some (ERROR, cleared_ctrl_config) \<and>
    unat (BusIdleDuration cleared_ctrl_config)
      \<noteq> (10000000 + unat (2083 :: u32) div 2) div unat (2083 :: u32) - 2 \<and>
    unat (BusIdleDuration cleared_ctrl_config)
      \<noteq> (100000 + unat (2083 :: u32) div 2) div unat (2083 :: u32) - 2)"
proof -
  have v: "verify_parameters reference_platform 48000000 50000 1000000 0 = SUCCESS"
    by (rule verify_nonzero) simp_all
  have e: "I3C_CtrlTimingComputation reference_platform cleared_ctrl_config 48000000 50000
      1000000 50 0 = Some (ERROR, cleared_ctrl_config)"
    using ctrl_48MHz_50kHz [of reference_platform cleared_ctrl_config]
    by (simp add: reference_platform_sel)
  have s: "I3C_CtrlTimingComputation reference_platform cleared_ctrl_config 48000000 12500000
      1000000 50 0 =
      Some (SUCCESS, \<lparr> SCLPPLowDuration = 1, SCLI3CHighDuration = 1, SCLODLowDuration = 18,
                       SCLI2CHighDuration = 0, BusFreeDuration = 10, BusIdleDuration = 46,
                       SDAHoldTime = 0 \<rparr>)"
    using ctrl_48MHz_12500kHz [of reference_platform cleared_ctrl_config]
    by (simp add: reference_platform_sel cleared_ctrl_config_def write_config_def)
  have n: "unat (BusIdleDuration cleared_ctrl_config) = 0"
    by (simp add: cleared_ctrl_config_def)
  show ?thesis
    unfolding e s n using v by (simp add: period_48MHz period_check_def)
qed

text \<open>
  C3, as amended. For every nonzero 32-bit frequency, the derived clock period exists
  and is \<open>floor((10^11 + floor(freqHz / 2)) / freqHz)\<close> reduced modulo \<open>2^32\<close> by the
  cast to \<open>uint32_t\<close>; from 24 Hz upwards the quotient fits 32 bits and the period is
  the quotient itself.
\<close>

theorem C3_period_round_half_up:
  assumes "freqHz \<noteq> 0"
  shows "map_option unat (period10ps freqHz) =
           Some (((100000000000 + unat freqHz div 2) div unat freqHz) mod 2 ^ 32) \<and>
         (24 \<le> unat freqHz \<longrightarrow>
           map_option unat (period10ps freqHz) =
             Some ((100000000000 + unat freqHz div 2) div unat freqHz))"
proof -
  have lt: "unat freqHz < 4294967296"
    using unsigned_less [of freqHz, where ?'a = nat] by simp
  have "24 \<le> unat freqHz \<Longrightarrow>
      ((100000000000 + unat freqHz div 2) div unat freqHz) mod 4294967296 =
      (100000000000 + unat freqHz div 2) div unat freqHz"
    using period_quotient_large(1) [OF _ lt] by simp
  then show ?thesis
    using assms by (simp add: unat_period_value [OF assms])
qed

theorem C3_witness:
  "(48000000 :: u32) \<noteq> 0 \<and> 24 \<le> unat (48000000 :: u32) \<and>
   map_option unat (period10ps 48000000) =
     Some ((100000000000 + unat (48000000 :: u32) div 2) div unat (48000000 :: u32))"
  using C3_period_round_half_up [of 48000000] by simp

text \<open>
  C3 as it is written fails at 1 Hz: the quotient is \<open>10^11\<close>, the period that the code
  derives is 1215752192.
\<close>

theorem C3_counterexample:
  "(1 :: u32) \<noteq> 0 \<and> period10ps 1 = Some 1215752192 \<and>
   unat (1215752192 :: u32) \<noteq> (100000000000 + unat (1 :: u32) div 2) div unat (1 :: u32)"
  by (simp add: period10ps_def udiv64_def SEC210PSEC_def)

text \<open>
  C4. The claim: on a pure I3C bus, whenever the computation returns \<open>SUCCESS\<close>, the
  realised push-pull period \<open>(SCLPPLowDuration + SCLI3CHighDuration + 2) * ClockPeriod\<close>
  is less than one clock period away from the period asked for. The code does not keep
  it. With a clock source of 48 MHz, a requested I3C frequency of 1164 Hz, an I2C
  frequency of 1 MHz and a duty cycle of 50 percent, the product
  \<open>ti3c_pp_min * dutyCycle\<close> of lines 156 and 181 is \<open>85910653 * 50\<close> and wraps around
  \<open>2^32\<close> to 565354. The counts computed from it are 3 and 2, they pass the test of
  line 301, and the computation returns \<open>SUCCESS\<close> with a realised period of 14581
  against a requested period of 85910653.
\<close>

theorem C4_overflow_48MHz_1164Hz:
  "I3C_CtrlTimingComputation P pConfig 48000000 1164 1000000 50 (I3C_PURE_I3C_BUS P) =
     Some (SUCCESS,
       pConfig \<lparr> SCLPPLowDuration := 3, SCLI3CHighDuration := 2, SCLODLowDuration := 18,
                 SCLI2CHighDuration := 0, BusFreeDuration := 10, BusIdleDuration := 46,
                 SDAHoldTime := 0 \<rparr>) \<and>
   period10ps 48000000 = Some 2083 \<and> period10ps 1164 = Some 85910653 \<and>
   (85910653 :: u32) * 50 = 565354 \<and>
   realized_pp_period
     (pConfig \<lparr> SCLPPLowDuration := 3, SCLI3CHighDuration := 2, SCLODLowDuration := 18,
                SCLI2CHighDuration := 0, BusFreeDuration := 10, BusIdleDuration := 46,
                SDAHoldTime := 0 \<rparr>) 2083 = 14581 \<and>
   pp_period_deviation
     (pConfig \<lparr> SCLPPLowDuration := 3, SCLI3CHighDuration := 2, SCLODLowDuration := 18,
                SCLI2CHighDuration := 0, BusFreeDuration := 10, BusIdleDuration := 46,
                SDAHoldTime := 0 \<rparr>) 2083 85910653 = 85896072 \<and>
   \<not> pp_period_deviation
     (pConfig \<lparr> SCLPPLowDuration := 3, SCLI3CHighDuration := 2, SCLODLowDuration := 18,
                SCLI2CHighDuration := 0, BusFreeDuration := 10, BusIdleDuration := 46,
                SDAHoldTime := 0 \<rparr>) 2083 85910653 < unat (2083 :: u32)"
  by (simp add: ctrl_48MHz_1164Hz period_48MHz period_1164Hz write_config_def
      realized_pp_period_def pp_period_deviation_def)

text \<open>
  C5, as amended. For every controller input on which the three periods and the
  computed values exist: if one of the six computed cycle counts (push-pull low, I3C
  high, open-drain low, I2C high, bus free, bus idle) exceeds 255, the computation
  returns \<open>ERROR\<close> and the output structure is as it was before the call. The structure
  is untouched on every \<open>ERROR\<close>. On \<open>SUCCESS\<close> each of the six count fields holds its
  computed count, which is at most 255. The seventh field, \<open>SDAHoldTime\<close>, is no count
  and is not bounded by 255: it holds the hold flag, 0 or 1, shifted to its bit.
\<close>

theorem C5_range_gate:
  "(\<forall>t pp od v.
      period10ps clockSrcFreq = Some t \<longrightarrow> period10ps i3cFreq = Some pp \<longrightarrow>
      period10ps i2cFreq = Some od \<longrightarrow>
      scl_computation P busType t pp od dutyCycle = Some v \<longrightarrow>
      (255 < unat (scllpp v) \<or> 255 < unat (sclhi3c v) \<or> 255 < unat (scllod v) \<or>
       255 < unat (sclhi2c v) \<or> 255 < unat (free v) \<or> 255 < unat (oneus v)) \<longrightarrow>
      I3C_CtrlTimingComputation P pConfig clockSrcFreq i3cFreq i2cFreq dutyCycle busType
        = Some (ERROR, pConfig)) \<and>
   (\<forall>cfg.
      I3C_CtrlTimingComputation P pConfig clockSrcFreq i3cFreq i2cFreq dutyCycle busType
        = Some (ERROR, cfg) \<longrightarrow> cfg = pConfig) \<and>
   (\<forall>cfg.
      I3C_CtrlTimingComputation P pConfig clockSrcFreq i3cFreq i2cFreq dutyCycle busType
        = Some (SUCCESS, cfg) \<longrightarrow>
      (\<exists>t pp od v.
         period10ps clockSrcFreq = Some t \<and> period10ps i3cFreq = Some pp \<and>
         period10ps i2cFreq = Some od \<and>
         scl_computation P busType t pp od dutyCycle = Some v \<and>
         unat (SCLPPLowDuration cfg) = unat (scllpp v) \<and> unat (scllpp v) \<le> 255 \<and>
         unat (SCLI3CHighDuration cfg) = unat (sclhi3c v) \<and> unat (sclhi3c v) \<le> 255 \<and>
         unat (SCLODLowDuration cfg) = unat (scllod v) \<and> unat (scllod v) \<le> 255 \<and>
         unat (SCLI2CHighDuration cfg) = unat (sclhi2c v) \<and> unat (sclhi2c v) \<le> 255 \<and>
         unat (BusFreeDuration cfg) = unat (free v) \<and> unat (free v) \<le> 255 \<and>
         unat (BusIdleDuration cfg) = unat (oneus v) \<and> unat (oneus v) \<le> 255 \<and>
         SDAHoldTime cfg = push_bit (I3C_TIMINGR1_SDA_HD_Pos P) (sdahold v) \<and>
         unat (sdahold v) \<le> 1))"
proof (intro conjI allI impI)
  fix t pp od v
  assume "period10ps clockSrcFreq = Some t" "period10ps i3cFreq = Some pp"
    "period10ps i2cFreq = Some od" "scl_computation P busType t pp od dutyCycle = Some v"
  moreover assume "255 < unat (scllpp v) \<or> 255 < unat (sclhi3c v) \<or> 255 < unat (scllod v) \<or>
      255 < unat (sclhi2c v) \<or> 255 < unat (free v) \<or> 255 < unat (oneus v)"
  then have "over_8bits v"
    by (simp add: over_8bits_def word_less_nat_alt)
  ultimately show "I3C_CtrlTimingComputation P pConfig clockSrcFreq i3cFreq i2cFreq dutyCycle
      busType = Some (ERROR, pConfig)"
    by (rule ctrl_over_8bits)
next
  fix cfg
  assume "I3C_CtrlTimingComputation P pConfig clockSrcFreq i3cFreq i2cFreq dutyCycle busType
      = Some (ERROR, cfg)"
  then show "cfg = pConfig"
    by (rule ctrl_error_unwritten)
next
  fix cfg
  assume "I3C_CtrlTimingComputation P pConfig clockSrcFreq i3cFreq i2cFreq dutyCycle busType
      = Some (SUCCESS, cfg)"
  then obtain t pp od v where
    periods: "period10ps clockSrcFreq = Some t" "period10ps i3cFreq = Some pp"
      "period10ps i2cFreq = Some od" and
    v: "scl_computation P busType t pp od dutyCycle = Some v" and
    fit: "\<not> over_8bits v" and
    w: "cfg = write_config P v pConfig"
    by (rule ctrl_success)
  from fit have small:
    "\<not> 0xFF < scllpp v" "\<not> 0xFF < sclhi3c v" "\<not> 0xFF < scllod v"
    "\<not> 0xFF < sclhi2c v" "\<not> 0xFF < free v" "\<not> 0xFF < oneus v"
    by (simp_all add: over_8bits_def)
  from small have le:
    "unat (scllpp v) \<le> 255" "unat (sclhi3c v) \<le> 255" "unat (scllod v) \<le> 255"
    "unat (sclhi2c v) \<le> 255" "unat (free v) \<le> 255" "unat (oneus v) \<le> 255"
    by (simp_all add: word_less_nat_alt)
  from v have "sdahold v = sda_hold t"
    by (rule scl_computation_Some)
  then have flag: "unat (sdahold v) \<le> 1"
    by (simp add: sda_hold_def)
  have "unat (SCLPPLowDuration cfg) = unat (scllpp v) \<and> unat (scllpp v) \<le> 255 \<and>
     unat (SCLI3CHighDuration cfg) = unat (sclhi3c v) \<and> unat (sclhi3c v) \<le> 255 \<and>
     unat (SCLODLowDuration cfg) = unat (scllod v) \<and> unat (scllod v) \<le> 255 \<and>
     unat (SCLI2CHighDuration cfg) = unat (sclhi2c v) \<and> unat (sclhi2c v) \<le> 255 \<and>
     unat (BusFreeDuration cfg) = unat (free v) \<and> unat (free v) \<le> 255 \<and>
     unat (BusIdleDuration cfg) = unat (oneus v) \<and> unat (oneus v) \<le> 255 \<and>
     SDAHoldTime cfg = push_bit (I3C_TIMINGR1_SDA_HD_Pos P) (sdahold v) \<and>
     unat (sdahold v) \<le> 1"
    unfolding w using le flag by (simp add: write_config_def unat_ucast_u8 [OF small(1)]
      unat_ucast_u8 [OF small(2)] unat_ucast_u8 [OF small(3)] unat_ucast_u8 [OF small(4)]
      unat_ucast_u8 [OF small(5)] unat_ucast_u8 [OF small(6)])
  with periods v show "\<exists>t pp od v.
         period10ps clockSrcFreq = Some t \<and> period10ps i3cFreq = Some pp \<and>
         period10ps i2cFreq = Some od \<and>
         scl_computation P busType t pp od dutyCycle = Some v \<and>
         unat (SCLPPLowDuration cfg) = unat (scllpp v) \<and> unat (scllpp v) \<le> 255 \<and>
         unat (SCLI3CHighDuration cfg) = unat (sclhi3c v) \<and> unat (sclhi3c v) \<le> 255 \<and>
         unat (SCLODLowDuration cfg) = unat (scllod v) \<and> unat (scllod v) \<le> 255 \<and>
         unat (SCLI2CHighDuration cfg) = unat (sclhi2c v) \<and> unat (sclhi2c v) \<le> 255 \<and>
         unat (BusFreeDuration cfg) = unat (free v) \<and> unat (free v) \<le> 255 \<and>
         unat (BusIdleDuration cfg) = unat (oneus v) \<and> unat (oneus v) \<le> 255 \<and>
         SDAHoldTime cfg = push_bit (I3C_TIMINGR1_SDA_HD_Pos P) (sdahold v) \<and>
         unat (sdahold v) \<le> 1"
    by blast
qed

theorem C5_witness:
  "(period10ps 48000000 = Some 2083 \<and> period10ps 50000 = Some 2000000 \<and>
    period10ps 1000000 = Some 100000 \<and>
    scl_computation reference_platform 0 2083 2000000 100000 50 =
      Some \<lparr> scllpp = 479, sclhi3c = 479, scllod = 479, sclhi2c = 0, free = 10, oneus = 46,
             sdahold = 0 \<rparr> \<and>
    255 < unat (479 :: u32) \<and>
    I3C_CtrlTimingComputation reference_platform cleared_ctrl_config 48000000 50000 1000000 50 0
      = Some (ERROR, cleared_ctrl_config)) \<and>
   (I3C_CtrlTimingComputation reference_platform cleared_ctrl_config 48000000 12500000 1000000 50 0
      = Some (SUCCESS, \<lparr> SCLPPLowDuration = 1, SCLI3CHighDuration = 1, SCLODLowDuration = 18,
                         SCLI2CHighDuration = 0, BusFreeDuration = 10, BusIdleDuration = 46,
                         SDAHoldTime = 0 \<rparr>) \<and>
    scl_computation reference_platform 0 2083 8000 100000 50 =
      Some \<lparr> scllpp = 1, sclhi3c = 1, scllod = 18, sclhi2c = 0, free = 10, oneus = 46,
             sdahold = 0 \<rparr> \<and>
    unat (18 :: u8) = unat (18 :: u32) \<and> unat (18 :: u32) \<le> 255)"
proof -
  have c1: "scl_computation reference_platform 0 2083 2000000 100000 50 =
      Some \<lparr> scllpp = 479, sclhi3c = 479, scllod = 479, sclhi2c = 0, free = 10, oneus = 46,
             sdahold = 0 \<rparr>"
    using computation_50kHz [of reference_platform] by (simp add: reference_platform_sel)
  have c2: "scl_computation reference_platform 0 2083 8000 100000 50 =
      Some \<lparr> scllpp = 1, sclhi3c = 1, scllod = 18, sclhi2c = 0, free = 10, oneus = 46,
             sdahold = 0 \<rparr>"
    using computation_12500kHz [of reference_platform] by (simp add: reference_platform_sel)
  have ok: "I3C_CtrlTimingComputation reference_platform cleared_ctrl_config 48000000 12500000
      1000000 50 0 =
      Some (SUCCESS, \<lparr> SCLPPLowDuration = 1, SCLI3CHighDuration = 1, SCLODLowDuration = 18,
                       SCLI2CHighDuration = 0, BusFreeDuration = 10, BusIdleDuration = 46,
                       SDAHoldTime = 0 \<rparr>)"
    using ctrl_48MHz_12500kHz [of reference_platform cleared_ctrl_config]
    by (simp add: reference_platform_sel cleared_ctrl_config_def write_config_def)
  have gate: "I3C_CtrlTimingComputation reference_platform cleared_ctrl_config 48000000 50000
      1000000 50 0 = Some (ERROR, cleared_ctrl_config)"
    using C5_range_gate [where P = reference_platform and busType = 0
        and clockSrcFreq = 48000000 and i3cFreq = 50000 and i2cFreq = 1000000
        and dutyCycle = 50 and pConfig = cleared_ctrl_config]
    by (simp add: period_48MHz period_50kHz period_1MHz c1)
  have "unat (18 :: u8) = unat (18 :: u32) \<and> unat (18 :: u32) \<le> 255"
    using C5_range_gate [where P = reference_platform and busType = 0
        and clockSrcFreq = 48000000 and i3cFreq = 12500000 and i2cFreq = 1000000
        and dutyCycle = 50 and pConfig = cleared_ctrl_config]
    by (simp add: period_48MHz period_12500kHz period_1MHz c2 ok)
  with gate ok c1 c2 show ?thesis
    by (simp add: period_48MHz period_50kHz period_1MHz)
qed

text \<open>
  C5 as it is written fails on its last part. With a clock source of 166666667 Hz, a
  requested I3C frequency of 12.5 MHz, an I2C frequency of 1 MHz and a duty cycle of 50
  percent on a pure bus, the period of the clock source is 600, the hold flag is 1, and
  the computation returns \<open>SUCCESS\<close> with an \<open>SDAHoldTime\<close> of \<open>2^28\<close>, which is not in
  the range from 0 to 255.
\<close>

theorem C5_counterexample:
  "I3C_CtrlTimingComputation reference_platform cleared_ctrl_config 166666667 12500000 1000000 50 0 =
     Some (SUCCESS, \<lparr> SCLPPLowDuration = 5, SCLI3CHighDuration = 6, SCLODLowDuration = 59,
                      SCLI2CHighDuration = 0, BusFreeDuration = 33, BusIdleDuration = 165,
                      SDAHoldTime = 268435456 \<rparr>) \<and>
   \<not> unat (SDAHoldTime \<lparr> SCLPPLowDuration = 5, SCLI3CHighDuration = 6, SCLODLowDuration = 59,
                      SCLI2CHighDuration = 0, BusFreeDuration = 33, BusIdleDuration = 165,
                      SDAHoldTime = 268435456 \<rparr>) \<le> 255"
  using ctrl_166666667Hz [of reference_platform cleared_ctrl_config]
  by (simp add: reference_platform_sel cleared_ctrl_config_def write_config_def)

text \<open>
  C6. A duty cycle above 50 makes the controller computation return \<open>ERROR\<close>, with the
  output structure untouched, whatever the three frequencies are, on a pure and on a
  mixed bus; and whatever \<open>busType\<close> is when the clock source frequency is not 0. The
  one input left is a clock source frequency of 0 together with a \<open>busType\<close> that is
  neither of the two bus types: the verification of lines 115 and 120 names these two
  only, such a call passes it, and line 128 divides by zero.
\<close>

theorem C6_duty_cycle_above_50:
  assumes "50 < dutyCycle"
  shows "I3C_CtrlTimingComputation P pConfig clockSrcFreq i3cFreq i2cFreq dutyCycle busType =
    (if clockSrcFreq = 0 \<and> busType \<noteq> I3C_PURE_I3C_BUS P \<and> busType \<noteq> I3C_MIXED_BUS P
     then None else Some (ERROR, pConfig))"
proof (cases "verify_parameters P clockSrcFreq i3cFreq i2cFreq busType")
  case ERROR
  then have "busType = I3C_PURE_I3C_BUS P \<or> busType = I3C_MIXED_BUS P"
    using verify_parameters_SUCCESS [of P clockSrcFreq i3cFreq i2cFreq busType] by auto
  with ERROR show ?thesis
    by (auto simp add: ctrl_rejected)
next
  case SUCCESS
  show ?thesis
  proof (cases "clockSrcFreq = 0")
    case True
    with SUCCESS have "busType \<noteq> I3C_PURE_I3C_BUS P \<and> busType \<noteq> I3C_MIXED_BUS P"
      by (auto simp add: verify_parameters_SUCCESS)
    moreover have "period10ps clockSrcFreq = None"
      using True by simp
    then have "I3C_CtrlTimingComputation P pConfig clockSrcFreq i3cFreq i2cFreq dutyCycle busType
        = None"
      by (rule ctrl_no_clock_period [OF SUCCESS])
    ultimately show ?thesis
      using True by simp
  next
    case False
    then have "period10ps clockSrcFreq = Some (period_value clockSrcFreq)"
      by simp
    moreover have "period_check dutyCycle (period_value clockSrcFreq)"
      using assms by (simp add: period_check_def)
    ultimately have "I3C_CtrlTimingComputation P pConfig clockSrcFreq i3cFreq i2cFreq dutyCycle
        busType = Some (ERROR, pConfig)"
      by (rule ctrl_period_check [OF SUCCESS])
    then show ?thesis
      using False by simp
  qed
qed

theorem C6_witness:
  "(50 :: u32) < 60 \<and>
   I3C_CtrlTimingComputation reference_platform cleared_ctrl_config 48000000 12500000 0 60 0
     = Some (ERROR, cleared_ctrl_config)"
  using C6_duty_cycle_above_50 [of 60 reference_platform cleared_ctrl_config 48000000 12500000 0 0]
  by simp

text \<open>
  C7. With a clock source frequency of 0, the controller computation returns \<open>ERROR\<close>
  for every value of the other frequencies and of the duty cycle, on a pure and on a
  mixed bus, and the target computation returns \<open>ERROR\<close>. Neither touches its output
  structure. The bus type ranges over the two bus types: the function documents
  \<open>busType\<close> as one value of \<open>I3C_BUS_TYPE\<close>, and its verification (lines 115 and
  120) names these two only.
\<close>

theorem C7_clock_source_zero:
  assumes "busType = I3C_PURE_I3C_BUS P \<or> busType = I3C_MIXED_BUS P"
  shows "I3C_CtrlTimingComputation P pConfig 0 i3cFreq i2cFreq dutyCycle busType
           = Some (ERROR, pConfig) \<and>
         I3C_TgtTimingComputation tConfig 0 = Some (ERROR, tConfig)"
proof -
  from assms have "verify_parameters P 0 i3cFreq i2cFreq busType = ERROR"
    by (auto simp add: verify_parameters_def)
  then show ?thesis
    by (simp add: ctrl_rejected tgt_unfold)
qed

theorem C7_witness:
  "((0 :: u32) = I3C_PURE_I3C_BUS reference_platform \<or> (0 :: u32) = I3C_MIXED_BUS reference_platform) \<and>
   I3C_CtrlTimingComputation reference_platform cleared_ctrl_config 0 12500000 0 50 0
     = Some (ERROR, cleared_ctrl_config) \<and>
   I3C_TgtTimingComputation cleared_tgt_config 0 = Some (ERROR, cleared_tgt_config)"
  using C7_clock_source_zero [of 0 reference_platform cleared_ctrl_config 12500000 0 50
      cleared_tgt_config]
  by (simp add: reference_platform_sel)

text \<open>
  C8. Whenever the controller computation returns \<open>SUCCESS\<close>, the period of the clock
  source exists, the field \<open>SDAHoldTime\<close> is the SDA hold flag shifted left to the
  position of the SDA\_HD bit, and the flag is 0 when the period of the clock source
  exceeds 600 (6 ns) and 1 otherwise.
\<close>

theorem C8_sda_hold_time:
  assumes "I3C_CtrlTimingComputation P pConfig clockSrcFreq i3cFreq i2cFreq dutyCycle busType
             = Some (SUCCESS, cfg)"
  shows "\<exists>t. period10ps clockSrcFreq = Some t \<and>
           SDAHoldTime cfg =
             push_bit (I3C_TIMINGR1_SDA_HD_Pos P) (if 600 < unat t then 0 else 1)"
proof -
  from assms obtain t pp od v where
    t: "period10ps clockSrcFreq = Some t" and
    v: "scl_computation P busType t pp od dutyCycle = Some v" and
    cfg: "cfg = write_config P v pConfig"
    by (rule ctrl_success)
  from v have "sdahold v = sda_hold t"
    by (rule scl_computation_Some)
  then have "SDAHoldTime cfg =
      push_bit (I3C_TIMINGR1_SDA_HD_Pos P) (if 600 < unat t then 0 else 1)"
    unfolding cfg by (simp add: write_config_def sda_hold_def word_less_nat_alt)
  with t show ?thesis
    by blast
qed

theorem C8_witness:
  "I3C_CtrlTimingComputation reference_platform cleared_ctrl_config 48000000 12500000 1000000 50 0 =
     Some (SUCCESS, \<lparr> SCLPPLowDuration = 1, SCLI3CHighDuration = 1, SCLODLowDuration = 18,
                      SCLI2CHighDuration = 0, BusFreeDuration = 10, BusIdleDuration = 46,
                      SDAHoldTime = 0 \<rparr>) \<and>
   period10ps 48000000 = Some 2083 \<and>
   (0 :: u32) = push_bit 28 (if 600 < unat (2083 :: u32) then 0 else 1)"
proof -
  have r: "I3C_CtrlTimingComputation reference_platform cleared_ctrl_config 48000000 12500000
      1000000 50 0 =
     Some (SUCCESS, \<lparr> SCLPPLowDuration = 1, SCLI3CHighDuration = 1, SCLODLowDuration = 18,
                      SCLI2CHighDuration = 0, BusFreeDuration = 10, BusIdleDuration = 46,
                      SDAHoldTime = 0 \<rparr>)"
    using ctrl_48MHz_12500kHz [of reference_platform cleared_ctrl_config]
    by (simp add: reference_platform_sel cleared_ctrl_config_def write_config_def)
  show ?thesis
    using r C8_sda_hold_time [OF r] by (simp add: period_48MHz reference_platform_sel)
qed

text \<open>
  C9. For every nonzero 32-bit clock source frequency the 32-bit period exists and is
  at least 23, hence nonzero. The test of line 130 then is the test of the duty cycle
  alone, and the target computation, whose only other error is a period of zero
  (line 353), returns \<open>SUCCESS\<close>.
\<close>

theorem C9_period_nonzero:
  assumes "clockSrcFreq \<noteq> 0"
  shows "\<exists>t. period10ps clockSrcFreq = Some t \<and> 23 \<le> unat t \<and> t \<noteq> 0 \<and>
           period_check dutyCycle t = (50 < dutyCycle) \<and>
           map_option fst (I3C_TgtTimingComputation tConfig clockSrcFreq) = Some SUCCESS"
proof -
  have t: "period10ps clockSrcFreq = Some (period_value clockSrcFreq)"
    using assms by simp
  have ge: "23 \<le> unat (period_value clockSrcFreq)"
    by (rule period_value_at_least_23 [OF assms])
  then have nz: "period_value clockSrcFreq \<noteq> 0"
    by auto
  with t ge assms show ?thesis
    by (simp add: period_check_def tgt_unfold)
qed

theorem C9_witness:
  "(4294967295 :: u32) \<noteq> 0 \<and> period10ps 4294967295 = Some 23 \<and> 23 \<le> unat (23 :: u32) \<and>
   map_option fst (I3C_TgtTimingComputation cleared_tgt_config 4294967295) = Some SUCCESS"
proof -
  have p: "period10ps 4294967295 = Some 23"
    by (simp add: period10ps_def udiv64_def SEC210PSEC_def)
  show ?thesis
    using C9_period_nonzero [of 4294967295 50 cleared_tgt_config] by (simp add: p)
qed

text \<open>
  C10. At a clock source of 1000 Hz the period is \<open>10^8\<close>, the rounded quotient
  \<open>round(100000 / 10^8)\<close> is 0, less than 2, the subtraction of 2 wraps to \<open>2^32 - 2\<close>, and the
  target computation returns \<open>SUCCESS\<close> with \<open>BusAvailableDuration = 254\<close>, the low
  eight bits: the target path has no test of the range.
\<close>

theorem C10_target_wraps_at_1kHz:
  "(1000 :: u32) \<noteq> 0 \<and> map_option unat (period10ps 1000) = Some 100000000 \<and>
   map_option unat (DIV_ROUND_CLOSEST 100000 100000000) = Some 0 \<and>
   map_option unat (one_microsecond 100000000) = Some (2 ^ 32 - 2) \<and>
   I3C_TgtTimingComputation tConfig 1000 = Some (SUCCESS, tConfig \<lparr> BusAvailableDuration := 254 \<rparr>)"
proof -
  have v: "period_value 1000 = 100000000"
    using period_1kHz by simp
  show ?thesis
    by (simp add: tgt_unfold v period_1kHz one_microsecond_def division_defs rounded_quotient_def)
qed

section \<open>The push-pull period when the products fit 32 bits\<close>

text \<open>
  The overflow above is the only way to a wrong period on a pure I3C bus. This section
  proves that whenever \<open>ti3c_pp_min * 100\<close> fits 32 bits (a requested I3C frequency
  of 2329 Hz or more), a computation that returns \<open>SUCCESS\<close> realises a push-pull
  period less than one clock period away from the period asked for.
\<close>

subsection \<open>The two corrections, on integers\<close>

text \<open>
  \<open>H\<close> and \<open>L0\<close> stand for \<open>sclhi3c + 1\<close> and \<open>scllpp + 1\<close> before the
  corrections, \<open>L1\<close> and \<open>L2\<close> for \<open>scllpp + 1\<close> after the first and the second;
  the comparisons are those of the code, on the residues modulo \<open>2^32\<close>.
\<close>

lemma mod_2_32_id: "0 \<le> x \<Longrightarrow> x < 4294967296 \<Longrightarrow> x mod 4294967296 = x" for x :: int
  by simp

lemma mod_2_32_neg: "- 4294967296 \<le> x \<Longrightarrow> x < 0 \<Longrightarrow> x mod 4294967296 = x + 4294967296" for x :: int
proof -
  assume "- 4294967296 \<le> x" "x < 0"
  then have "(x + 4294967296) mod 4294967296 = x + 4294967296"
    by (intro mod_2_32_id) linarith+
  then show ?thesis
    by simp
qed

lemma correction_accuracy:
  fixes T p H L0 L1 L2 :: int
  assumes T: "1 \<le> T" "T \<le> 66666" and p: "0 \<le> p" "p \<le> 42949672" and H: "1 \<le> H" "H \<le> 256"
    and L0: "- 2147483648 < L0" "L0 < 2147483648"
    and U: "100 * ((L0 + H) * T) \<le> 100 * p + 2 * (T div 2) + 100 * T"
    and Lo: "100 * p + 2 * (T div 2) < 100 * ((L0 + H) * T) + 100 * T"
    and W: "0 \<le> L0 \<Longrightarrow> H * T \<le> p + T div 2 + 1"
    and L1: "L1 = (if (p - H * T + T div 2 + 1) mod 4294967296 \<le> (L0 * T) mod 4294967296
                   then L0 - 1 else L0)"
    and L2: "L2 = (if ((L1 + H) * T) mod 4294967296 < (p - H * T + T div 2 + 1) mod 4294967296
                   then L1 + 1 else L1)"
    and ok: "(L2 - 1) mod 4294967296 \<le> 255"
  shows "1 \<le> L2 \<and> L2 \<le> 256 \<and> (L2 + H) * T < p + T \<and> p < (L2 + H) * T + T"
proof -
  have near: "L0 - 1 \<le> L2" "L2 \<le> L0 + 1"
    by (simp_all add: L1 L2)
  have L2_range: "1 \<le> L2 \<and> L2 \<le> 256"
  proof (cases "L2 - 1 < 0")
    case True
    then have "(L2 - 1) mod 4294967296 = L2 - 1 + 4294967296"
      using near L0 by (intro mod_2_32_neg) linarith+
    with ok near L0 show ?thesis by linarith
  next
    case False
    then have "(L2 - 1) mod 4294967296 = L2 - 1"
      using near L0 by (intro mod_2_32_id) linarith+
    with ok False show ?thesis by linarith
  qed
  with near have L0_range: "0 \<le> L0" "L0 \<le> 257"
    by linarith+
  have half: "2 * (T div 2) \<le> T" "T \<le> 2 * (T div 2) + 1"
    by presburger+
  define LT where "LT = L0 * T"
  define HT where "HT = H * T"
  define E where "E = p - HT + T div 2 + 1"
  have LT: "0 \<le> LT" "LT \<le> 257 * T"
    using L0_range T by (simp_all add: LT_def mult_right_mono)
  have HT: "T \<le> HT" "HT \<le> 256 * T"
    using H T mult_right_mono [of 1 H T] mult_right_mono [of H 256 T] by (simp_all add: HT_def)
  have E: "0 \<le> E"
    using W [OF L0_range(1)] by (simp add: E_def HT_def)
  have E_mod: "(p - H * T + T div 2 + 1) mod 4294967296 = E"
    using E p HT T half unfolding E_def HT_def [symmetric] by (intro mod_2_32_id) linarith+
  have LT_mod: "(L0 * T) mod 4294967296 = LT"
    using LT T unfolding LT_def [symmetric] by (intro mod_2_32_id) linarith+
  have U': "100 * LT + 100 * HT \<le> 100 * p + 2 * (T div 2) + 100 * T"
    using U by (simp add: LT_def HT_def distrib_right)
  have Lo': "100 * p + 2 * (T div 2) < 100 * LT + 100 * HT + 100 * T"
    using Lo by (simp add: LT_def HT_def distrib_right)
  have L1': "L1 = (if E \<le> LT then L0 - 1 else L0)"
    using L1 by (simp only: E_mod LT_mod)
  have "(L2 + H) * T < p + T \<and> p < (L2 + H) * T + T"
  proof (cases "E \<le> LT")
    case True
    then have l1: "L1 = L0 - 1" by (simp add: L1')
    have s: "(L0 - 1 + H) * T = LT + HT - T"
      by (simp add: LT_def HT_def algebra_simps)
    have m: "(LT + HT - T) mod 4294967296 = LT + HT - T"
      using LT HT T by (intro mod_2_32_id) linarith+
    have "L2 = (if LT + HT - T < E then L0 - 1 + 1 else L0 - 1)"
      using L2 unfolding l1 s E_mod m .
    moreover have "\<not> LT + HT - T < E"
      using True HT half unfolding E_def by linarith
    ultimately have l2: "L2 = L0 - 1" by simp
    have r: "(L2 + H) * T = LT + HT - T"
      by (simp add: l2 LT_def HT_def algebra_simps)
    have "LT + HT - T < p + T"
      using U' T half by linarith
    moreover have "p < LT + HT - T + T"
      using True T half unfolding E_def by linarith
    ultimately show ?thesis
      by (simp only: r)
  next
    case False
    then have l1: "L1 = L0" by (simp add: L1')
    have s: "(L0 + H) * T = LT + HT"
      by (simp add: LT_def HT_def algebra_simps)
    have m: "(LT + HT) mod 4294967296 = LT + HT"
      using LT HT T by (intro mod_2_32_id) linarith+
    have l2: "L2 = (if LT + HT < E then L0 + 1 else L0)"
      using L2 unfolding l1 s E_mod m .
    show ?thesis
    proof (cases "LT + HT < E")
      case True
      then have r: "(L2 + H) * T = LT + HT + T"
        by (simp add: l2 LT_def HT_def algebra_simps)
      have "LT + HT + T < p + T"
        using True HT T half unfolding E_def by linarith
      moreover have "p < LT + HT + T + T"
        using Lo' T half by linarith
      ultimately show ?thesis
        by (simp only: r)
    next
      case c2: False
      then have r: "(L2 + H) * T = LT + HT"
        by (simp add: l2 LT_def HT_def algebra_simps)
      have "LT + HT < p + T"
        using False T half unfolding E_def by linarith
      moreover have "p < LT + HT + T"
        using Lo' T half by linarith
      ultimately show ?thesis
        by (simp only: r)
    qed
  qed
  with L2_range show ?thesis
    by simp
qed

lemma scllpp_correction_int:
  fixes T pp :: u32 and H L0 L1 L2 :: int
  assumes L1: "L1 = (if (uint pp - H * uint T + uint T div 2 + 1) mod 4294967296
                          \<le> (L0 * uint T) mod 4294967296
                     then L0 - 1 else L0)"
    and L2: "L2 = (if ((L1 + H) * uint T) mod 4294967296
                        < (uint pp - H * uint T + uint T div 2 + 1) mod 4294967296
                   then L1 + 1 else L1)"
  shows "scllpp_correction T pp (word_of_int (H - 1)) (word_of_int (L0 - 1)) = word_of_int (L2 - 1)"
proof -
  have half: "T div 2 = word_of_int (uint T div 2)"
    by (simp add: word_div_def)
  have rhs: "pp - (word_of_int (H - 1) + 1) * T + T div 2 + 1 =
      word_of_int (uint pp - H * uint T + uint T div 2 + 1)"
    by (simp add: half)
  have lhs1: "(word_of_int (L0 - 1) + 1) * T = word_of_int (L0 * uint T)"
    by simp
  have lhs2: "(word_of_int (L1 - 1) + word_of_int (H - 1) + 1 + 1) * T = word_of_int ((L1 + H) * uint T)"
    by simp
  have l1: "(if pp - (word_of_int (H - 1) + 1) * T + T div 2 + 1 \<le> (word_of_int (L0 - 1) + 1) * T
             then word_of_int (L0 - 1) - 1 else word_of_int (L0 - 1)) = (word_of_int (L1 - 1) :: u32)"
    unfolding rhs lhs1 word_le_def uint_word_of_int L1 by simp
  have l2: "(if (word_of_int (L1 - 1) + word_of_int (H - 1) + 1 + 1) * T
                  < pp - (word_of_int (H - 1) + 1) * T + T div 2 + 1
             then word_of_int (L1 - 1) + 1 else word_of_int (L1 - 1)) = (word_of_int (L2 - 1) :: u32)"
    unfolding rhs lhs2 word_less_def uint_word_of_int L2 by simp
  show ?thesis
    unfolding scllpp_correction_def Let_def l1 l2 ..
qed

subsection \<open>The rounded division, on integers\<close>

lemma uint_rounded_quotient:
  fixes x d :: u32
  assumes "uint x + uint d div 2 < 4294967296"
  shows "uint (rounded_quotient x d) = (uint x + uint d div 2) div uint d"
proof -
  have "uint (d div 2) = uint d div 2"
    by (simp add: uint_div)
  moreover from this assms have "uint (x + d div 2) = uint x + uint (d div 2)"
    using uint_add_lem [of x "d div 2"] by simp
  ultimately show ?thesis
    by (simp add: rounded_quotient_def uint_div)
qed

lemma rounded_quotient_bounds:
  fixes x d :: u32
  assumes "d \<noteq> 0" "uint x + uint d div 2 < 4294967296"
  shows "uint (rounded_quotient x d) * uint d \<le> uint x + uint d div 2"
    and "uint x + uint d div 2 < uint (rounded_quotient x d) * uint d + uint d"
proof -
  have pos: "0 < uint d"
    using assms(1) uint_0_iff [of d] uint_ge_0 [of d] by linarith
  let ?n = "uint x + uint d div 2"
  have q: "uint (rounded_quotient x d) = ?n div uint d"
    by (rule uint_rounded_quotient [OF assms(2)])
  have "?n div uint d * uint d + ?n mod uint d = ?n"
    by simp
  moreover have "0 \<le> ?n mod uint d" "?n mod uint d < uint d"
    using pos by simp_all
  ultimately show "uint (rounded_quotient x d) * uint d \<le> ?n"
    and "?n < uint (rounded_quotient x d) * uint d + uint d"
    unfolding q by linarith+
qed

lemma uint_mult_u32:
  fixes x y :: u32
  assumes "uint x * uint y < 4294967296"
  shows "uint (x * y) = uint x * uint y"
  using assms uint_mult_lem [of x y] by simp

subsection \<open>The high and the low level on a pure bus\<close>

lemma scl_high_low_pure_unfold:
  assumes "T \<noteq> 0"
  shows "scl_high_low P (I3C_PURE_I3C_BUS P) T pp d =
    Some (if rounded_quotient (rounded_quotient (pp * d) T) 100 * T < 3200
     then (if rounded_quotient 3200 T * T < 3200
           then (rounded_quotient 3200 T,
                 rounded_quotient pp T - (rounded_quotient 3200 T + 1) - 1)
           else (rounded_quotient 3200 T - 1,
                 rounded_quotient pp T - rounded_quotient 3200 T - 1))
     else (rounded_quotient (rounded_quotient (pp * d) T) 100 - 1,
           rounded_quotient (rounded_quotient (pp * (100 - d)) T) 100 - 1))"
  using assms by (simp add: scl_high_low_def TI3CH_MIN_def Let_def cong: if_cong)

lemma scl_high_low_pure:
  fixes T pp d :: u32
  assumes T: "T \<noteq> 0" "uint T \<le> 66666" and d: "d \<le> 50" and pp: "uint pp * 100 < 4294967296"
  shows "\<exists>H L0. scl_high_low P (I3C_PURE_I3C_BUS P) T pp d =
        Some (word_of_int (H - 1), word_of_int (L0 - 1)) \<and>
      1 \<le> H \<and> H < 2147483648 \<and> - 2147483648 < L0 \<and> L0 < 2147483648 \<and>
      100 * ((L0 + H) * uint T) \<le> 100 * uint pp + 2 * (uint T div 2) + 100 * uint T \<and>
      100 * uint pp + 2 * (uint T div 2) < 100 * ((L0 + H) * uint T) + 100 * uint T \<and>
      (0 \<le> L0 \<longrightarrow> H * uint T \<le> uint pp + uint T div 2 + 1)"
proof -
  define Ti where "Ti = uint T"
  define p where "p = uint pp"
  define di where "di = uint d"
  define t2 where "t2 = Ti div 2"
  have Ti: "1 \<le> Ti" "Ti \<le> 66666"
    using T uint_0_iff [of T] uint_ge_0 [of T] unfolding Ti_def by linarith+
  have p: "0 \<le> p" "p \<le> 42949672"
    using pp unfolding p_def by simp_all
  have di: "0 \<le> di" "di \<le> 50"
    using d unfolding di_def by (simp_all add: word_le_def)
  have half: "2 * t2 \<le> Ti" "Ti \<le> 2 * t2 + 1" "0 \<le> t2"
    using Ti unfolding t2_def by presburger+
  have hundred: "uint (100 :: u32) = 100" "(100 :: u32) \<noteq> 0" "uint (3200 :: u32) = 3200"
    by simp_all

  \<comment> \<open>the product with the duty cycle and the two rounded divisions of it\<close>
  define pd where "pd = p * di"
  have pd: "0 \<le> pd" "pd \<le> 50 * p"
    using p di mult_left_mono [of di 50 p] unfolding pd_def by (simp_all add: mult.commute)
  have u_pd: "uint (pp * d) = pd"
    unfolding pd_def p_def di_def
    by (rule uint_mult_u32) (use pd p in \<open>simp add: pd_def p_def di_def\<close>)
  define q1 where "q1 = uint (rounded_quotient (pp * d) T)"
  define q1T where "q1T = q1 * Ti"
  have q1: "q1T \<le> pd + t2" "pd + t2 < q1T + Ti"
    using rounded_quotient_bounds [of T "pp * d"] T(1) pd p half Ti
    unfolding q1T_def q1_def u_pd Ti_def [symmetric] t2_def [symmetric] by simp_all
  have q1_nonneg: "0 \<le> q1"
    unfolding q1_def by simp
  have q1_le: "q1 \<le> q1T"
    using mult_left_mono [of 1 Ti q1] Ti q1_nonneg unfolding q1T_def by simp
  define b where "b = uint (rounded_quotient (rounded_quotient (pp * d) T) 100)"
  define bT where "bT = b * Ti"
  have b: "b * 100 \<le> q1 + 50" "q1 + 50 < b * 100 + 100"
    using rounded_quotient_bounds [of 100 "rounded_quotient (pp * d) T"] q1_le q1 pd p half Ti
    unfolding b_def q1_def [symmetric] hundred by simp_all
  have b_nonneg: "0 \<le> b"
    unfolding b_def by simp
  have bT: "100 * bT \<le> q1T + 50 * Ti" "q1T + 51 * Ti \<le> 100 * bT + 100 * Ti"
    using mult_right_mono [of "b * 100" "q1 + 50" Ti] mult_right_mono [of "q1 + 51" "b * 100 + 100" Ti]
      b Ti unfolding bT_def q1T_def by (simp_all add: algebra_simps)
  have b_le: "b \<le> bT"
    using mult_left_mono [of 1 Ti b] Ti b_nonneg unfolding bT_def by simp
  have u_bT: "uint (rounded_quotient (rounded_quotient (pp * d) T) 100 * T) = bT"
    unfolding bT_def b_def Ti_def
    by (rule uint_mult_u32) (use bT q1 pd p half Ti in \<open>simp add: bT_def b_def Ti_def\<close>)
  have cond: "rounded_quotient (rounded_quotient (pp * d) T) 100 * T < 3200 \<longleftrightarrow> bT < 3200"
    by (simp add: word_less_def u_bT)

  show ?thesis
  proof (cases "bT < 3200")
    case True
    \<comment> \<open>the high level comes from the minimum of 32 ns, the low level is the rest\<close>
    define c where "c = uint (rounded_quotient 3200 T)"
    define cT where "cT = c * Ti"
    have c: "cT \<le> 3200 + t2" "3200 + t2 < cT + Ti"
      using rounded_quotient_bounds [of T 3200] T(1) half Ti
      unfolding cT_def c_def hundred Ti_def [symmetric] t2_def [symmetric] by simp_all
    have c_nonneg: "0 \<le> c"
      unfolding c_def by simp
    have c_le: "c \<le> cT"
      using mult_left_mono [of 1 Ti c] Ti c_nonneg unfolding cT_def by simp
    have u_cT: "uint (rounded_quotient 3200 T * T) = cT"
      unfolding cT_def c_def Ti_def
      by (rule uint_mult_u32) (use c half Ti in \<open>simp add: cT_def c_def Ti_def\<close>)
    have cond_c: "rounded_quotient 3200 T * T < 3200 \<longleftrightarrow> cT < 3200"
      by (simp add: word_less_def u_cT)
    have cw: "rounded_quotient 3200 T = word_of_int c"
      unfolding c_def by simp
    define R where "R = uint (rounded_quotient pp T)"
    define RT where "RT = R * Ti"
    have R: "RT \<le> p + t2" "p + t2 < RT + Ti"
      using rounded_quotient_bounds [of T pp] T(1) p half Ti
      unfolding RT_def R_def p_def [symmetric] Ti_def [symmetric] t2_def [symmetric] by simp_all
    have R_nonneg: "0 \<le> R"
      unfolding R_def by simp
    have R_le: "R \<le> RT"
      using mult_left_mono [of 1 Ti R] Ti R_nonneg unfolding RT_def by simp
    have Rw: "rounded_quotient pp T = word_of_int R"
      unfolding R_def by simp
    define H where "H = (if cT < 3200 then c + 1 else c)"
    have H1: "1 \<le> H"
    proof (cases "cT < 3200")
      case True
      then show ?thesis using c_nonneg by (simp add: H_def)
    next
      case False
      then have "c \<noteq> 0" by (auto simp add: cT_def)
      with False show ?thesis using c_nonneg by (simp add: H_def)
    qed
    have H_le: "H \<le> c + 1"
      by (simp add: H_def)
    have res: "scl_high_low P (I3C_PURE_I3C_BUS P) T pp d =
        Some (word_of_int (H - 1), word_of_int ((R - H) - 1))"
      using True
      by (simp only: scl_high_low_pure_unfold [OF T(1)] cond cond_c if_True) (simp add: cw Rw H_def)
    have sum: "(R - H + H) * Ti = RT"
      by (simp add: RT_def)
    have W: "H * Ti \<le> p + t2 + 1" if "0 \<le> R - H"
    proof -
      from that have "H * Ti \<le> RT"
        unfolding RT_def using Ti by (intro mult_right_mono) simp_all
      with R show ?thesis by linarith
    qed
    have "1 \<le> H \<and> H < 2147483648 \<and> - 2147483648 < R - H \<and> R - H < 2147483648 \<and>
      100 * ((R - H + H) * Ti) \<le> 100 * p + 2 * t2 + 100 * Ti \<and>
      100 * p + 2 * t2 < 100 * ((R - H + H) * Ti) + 100 * Ti \<and>
      (0 \<le> R - H \<longrightarrow> H * Ti \<le> p + t2 + 1)"
      unfolding sum using H1 H_le c c_le c_nonneg R R_le R_nonneg p half Ti W by (intro conjI impI) linarith+
    with res show ?thesis
      unfolding Ti_def p_def t2_def by blast
  next
    case False
    \<comment> \<open>both levels come from the duty cycle\<close>
    have b1: "1 \<le> b"
    proof (rule ccontr)
      assume "\<not> 1 \<le> b"
      with b_nonneg have "b = 0" by simp
      with False show False by (simp add: bT_def)
    qed
    have bT_ge: "Ti \<le> bT"
      using mult_right_mono [of 1 b Ti] b1 Ti unfolding bT_def by simp
    have di1: "1 \<le> di"
    proof (rule ccontr)
      assume "\<not> 1 \<le> di"
      with di have "pd = 0" by (simp add: pd_def)
      with q1 bT bT_ge half Ti show False by linarith
    qed
    have u_100d: "uint (100 - d) = 100 - di"
      using di uint_sub_lem [of d 100] unfolding di_def by simp
    define pe where "pe = p * (100 - di)"
    have pe: "pe = 100 * p - pd"
      by (simp add: pe_def pd_def algebra_simps)
    have pe_le: "pe \<le> 99 * p" "0 \<le> pe"
      using mult_left_mono [of "100 - di" 99 p] di1 di p unfolding pe_def by (simp_all add: mult.commute)
    have u_pe: "uint (pp * (100 - d)) = pe"
      unfolding pe_def p_def u_100d [symmetric]
      by (rule uint_mult_u32) (use pe_le p in \<open>simp add: pe_def p_def u_100d\<close>)
    define q2 where "q2 = uint (rounded_quotient (pp * (100 - d)) T)"
    define q2T where "q2T = q2 * Ti"
    have q2: "q2T \<le> pe + t2" "pe + t2 < q2T + Ti"
      using rounded_quotient_bounds [of T "pp * (100 - d)"] T(1) pe_le p half Ti
      unfolding q2T_def q2_def u_pe Ti_def [symmetric] t2_def [symmetric] by simp_all
    have q2_nonneg: "0 \<le> q2"
      unfolding q2_def by simp
    have q2_le: "q2 \<le> q2T"
      using mult_left_mono [of 1 Ti q2] Ti q2_nonneg unfolding q2T_def by simp
    define L0 where "L0 = uint (rounded_quotient (rounded_quotient (pp * (100 - d)) T) 100)"
    define LT where "LT = L0 * Ti"
    have L0: "L0 * 100 \<le> q2 + 50" "q2 + 50 < L0 * 100 + 100"
      using rounded_quotient_bounds [of 100 "rounded_quotient (pp * (100 - d)) T"]
        q2_le q2 pe_le p half Ti
      unfolding L0_def q2_def [symmetric] hundred by simp_all
    have L0_nonneg: "0 \<le> L0"
      unfolding L0_def by simp
    have LT: "100 * LT \<le> q2T + 50 * Ti" "q2T + 51 * Ti \<le> 100 * LT + 100 * Ti"
      using mult_right_mono [of "L0 * 100" "q2 + 50" Ti] mult_right_mono [of "q2 + 51" "L0 * 100 + 100" Ti]
        L0 Ti unfolding LT_def q2T_def by (simp_all add: algebra_simps)
    have L0_le: "L0 \<le> LT"
      using mult_left_mono [of 1 Ti L0] Ti L0_nonneg unfolding LT_def by simp
    have res: "scl_high_low P (I3C_PURE_I3C_BUS P) T pp d =
        Some (word_of_int (b - 1), word_of_int (L0 - 1))"
      using False
      by (simp only: scl_high_low_pure_unfold [OF T(1)] cond if_False) (simp add: b_def L0_def)
    have sum: "100 * ((L0 + b) * Ti) = 100 * LT + 100 * bT"
      by (simp add: LT_def bT_def algebra_simps)
    have "1 \<le> b \<and> b < 2147483648 \<and> - 2147483648 < L0 \<and> L0 < 2147483648 \<and>
      100 * ((L0 + b) * Ti) \<le> 100 * p + 2 * t2 + 100 * Ti \<and>
      100 * p + 2 * t2 < 100 * ((L0 + b) * Ti) + 100 * Ti \<and>
      (0 \<le> L0 \<longrightarrow> bT \<le> p + t2 + 1)"
      unfolding sum
      using b1 b_le bT bT_ge q1 pd pe pe_le q2 LT L0_le L0_nonneg p half Ti
      by (intro conjI impI) linarith+
    with res show ?thesis
      unfolding Ti_def p_def t2_def bT_def by blast
  qed
qed

subsection \<open>The accuracy of the period\<close>

lemma one_microsecond_fits:
  assumes "one_microsecond T = Some us" "\<not> 0xFF < us"
  shows "uint T \<le> 66666"
proof -
  let ?q = "rounded_quotient 100000 T"
  have nz: "T \<noteq> 0" and us: "us = ?q - 2"
    using one_microsecond_SomeD [OF assms(1)] by simp_all
  have "?q - 2 \<le> 255"
    using assms(2) by (simp add: us not_less)
  then have "2 \<le> ?q"
    by (rule rounded_quotient_100000_ge_2)
  then have "2 \<le> unat ?q"
    by (simp add: word_le_nat_alt)
  then have "2 \<le> (100000 + unat T div 2) div unat T"
    by (simp add: unat_one_microsecond [OF nz])
  moreover have "0 < unat T"
    using nz by (simp add: unat_gt_0)
  ultimately have "2 * unat T \<le> 100000 + unat T div 2"
    by (simp add: less_eq_div_iff_mult_less_eq)
  then have "unat T \<le> 66666"
    by linarith
  then show ?thesis
    using uint_nat [of T] by linarith
qed

text \<open>
  On a pure I3C bus, a computation that returns \<open>SUCCESS\<close> for a requested period
  with \<open>ti3c_pp_min * 100 < 2^32\<close> realises a push-pull period that differs from
  \<open>ti3c_pp_min\<close> by less than one period of the clock source.
\<close>

theorem pp_period_accuracy:
  assumes succ: "I3C_CtrlTimingComputation P pConfig clockSrcFreq i3cFreq i2cFreq dutyCycle
                   (I3C_PURE_I3C_BUS P) = Some (SUCCESS, cfg)"
    and clk: "period10ps clockSrcFreq = Some T"
    and i3c: "period10ps i3cFreq = Some pp"
    and fits: "unat pp * 100 < 2 ^ 32"
  shows "pp_period_deviation cfg T pp < unat T"
proof -
  from succ obtain T' pp' od v where
    "period10ps clockSrcFreq = Some T'" "period10ps i3cFreq = Some pp'" and
    chk': "\<not> period_check dutyCycle T'" and
    v': "scl_computation P (I3C_PURE_I3C_BUS P) T' pp' od dutyCycle = Some v" and
    fit: "\<not> over_8bits v" and
    cfg: "cfg = write_config P v pConfig"
    by (rule ctrl_success)
  with clk i3c have "T' = T" "pp' = pp"
    by simp_all
  with chk' v' have chk: "\<not> period_check dutyCycle T"
    and v: "scl_computation P (I3C_PURE_I3C_BUS P) T pp od dutyCycle = Some v"
    by simp_all
  from v obtain h l where
    hl0: "scl_high_low P (I3C_PURE_I3C_BUS P) T pp dutyCycle = Some (h, l)" and
    v_hi: "sclhi3c v = h" and
    v_lo: "scllpp v = scllpp_correction T pp h l" and
    v_us: "one_microsecond T = Some (oneus v)"
    by (rule scl_computation_Some)
  from chk have T0: "T \<noteq> 0" and duty: "dutyCycle \<le> 50"
    by (simp_all add: period_check_def not_less)
  from fit have small: "\<not> 0xFF < scllpp v" "\<not> 0xFF < sclhi3c v" "\<not> 0xFF < oneus v"
    by (simp_all add: over_8bits_def)
  have T_le: "uint T \<le> 66666"
    using v_us small(3) by (rule one_microsecond_fits)
  have "unat pp * 100 < 4294967296"
    using fits by simp
  then have pp_fits: "uint pp * 100 < 4294967296"
    using uint_nat [of pp] by linarith
  from scl_high_low_pure [OF T0 T_le duty pp_fits, of P]
  obtain H L0 where hl: "scl_high_low P (I3C_PURE_I3C_BUS P) T pp dutyCycle =
        Some (word_of_int (H - 1), word_of_int (L0 - 1))"
    and H: "1 \<le> H" "H < 2147483648" and L0: "- 2147483648 < L0" "L0 < 2147483648"
    and U: "100 * ((L0 + H) * uint T) \<le> 100 * uint pp + 2 * (uint T div 2) + 100 * uint T"
    and Lo: "100 * uint pp + 2 * (uint T div 2) < 100 * ((L0 + H) * uint T) + 100 * uint T"
    and W: "0 \<le> L0 \<longrightarrow> H * uint T \<le> uint pp + uint T div 2 + 1"
    by blast
  from hl0 hl have h: "h = word_of_int (H - 1)" and l: "l = word_of_int (L0 - 1)"
    by simp_all
  define L1 where "L1 = (if (uint pp - H * uint T + uint T div 2 + 1) mod 4294967296
                          \<le> (L0 * uint T) mod 4294967296 then L0 - 1 else L0)"
  define L2 where "L2 = (if ((L1 + H) * uint T) mod 4294967296
                        < (uint pp - H * uint T + uint T div 2 + 1) mod 4294967296
                   then L1 + 1 else L1)"
  have hi: "sclhi3c v = word_of_int (H - 1)"
    by (simp only: v_hi h)
  have lo: "scllpp v = word_of_int (L2 - 1)"
    unfolding v_lo h l by (rule scllpp_correction_int [OF L1_def L2_def])
  have "(H - 1) mod 4294967296 = H - 1"
    using H by (intro mod_2_32_id) linarith+
  then have u_hi: "uint (sclhi3c v) = H - 1"
    unfolding hi uint_word_of_int by simp
  then have H_le: "H \<le> 256"
    using small(2) by (simp add: word_less_def)
  have "uint (scllpp v) \<le> 255"
    using small(1) by (simp add: word_less_def)
  then have ok: "(L2 - 1) mod 4294967296 \<le> 255"
    unfolding lo uint_word_of_int by simp
  have T1: "1 \<le> uint T"
    using T0 uint_0_iff [of T] uint_ge_0 [of T] by linarith
  have pp_le: "0 \<le> uint pp" "uint pp \<le> 42949672"
    using pp_fits by simp_all
  from correction_accuracy [OF T1 T_le pp_le H(1) H_le L0 U Lo W [rule_format] L1_def L2_def ok]
  have L2: "1 \<le> L2" "L2 \<le> 256"
    and acc: "(L2 + H) * uint T < uint pp + uint T" "uint pp < (L2 + H) * uint T + uint T"
    by simp_all
  have "(L2 - 1) mod 4294967296 = L2 - 1"
    using L2 by (intro mod_2_32_id) linarith+
  then have u_lo: "uint (scllpp v) = L2 - 1"
    unfolding lo uint_word_of_int by simp
  have "unat (SCLPPLowDuration cfg) = unat (scllpp v)"
    using unat_ucast_u8 [OF small(1)] by (simp add: cfg write_config_def)
  then have f_lo: "uint (SCLPPLowDuration cfg) = L2 - 1"
    using u_lo uint_nat [of "scllpp v"] uint_nat [of "SCLPPLowDuration cfg"] by linarith
  have "unat (SCLI3CHighDuration cfg) = unat (sclhi3c v)"
    using unat_ucast_u8 [OF small(2)] by (simp add: cfg write_config_def)
  then have f_hi: "uint (SCLI3CHighDuration cfg) = H - 1"
    using u_hi uint_nat [of "sclhi3c v"] uint_nat [of "SCLI3CHighDuration cfg"] by linarith
  have "int (realized_pp_period cfg T) =
      (uint (SCLPPLowDuration cfg) + uint (SCLI3CHighDuration cfg) + 2) * uint T"
    by (simp add: realized_pp_period_def algebra_simps)
  also have "\<dots> = (L2 + H) * uint T"
    unfolding f_lo f_hi by (simp add: algebra_simps)
  finally have r: "int (realized_pp_period cfg T) = (L2 + H) * uint T" .
  have "int (realized_pp_period cfg T) < uint pp + uint T"
    and "uint pp < int (realized_pp_period cfg T) + uint T"
    using acc unfolding r .
  then have "realized_pp_period cfg T < unat pp + unat T"
    and "unat pp < realized_pp_period cfg T + unat T"
    using uint_nat [of T] uint_nat [of pp] by linarith+
  then show ?thesis
    unfolding pp_period_deviation_def Let_def by (auto simp add: less_diff_conv2)
qed

text \<open>From 2329 Hz upwards the requested period meets the condition of the theorem.\<close>

lemma period_fits_from_2329Hz:
  assumes "2329 \<le> unat f"
  shows "\<exists>pp. period10ps f = Some pp \<and> unat pp * 100 < 2 ^ 32"
proof -
  from assms have nz: "f \<noteq> 0"
    by auto
  have "100000000000 + unat f div 2 < 42949673 * unat f"
    using assms by linarith
  then have q: "(100000000000 + unat f div 2) div unat f < 42949673"
    using assms less_mult_imp_div_less [of "100000000000 + unat f div 2" 42949673 "unat f"] by simp
  then have "unat (period_value f) = (100000000000 + unat f div 2) div unat f"
    by (simp add: unat_period_value [OF nz])
  with q nz show ?thesis
    by simp
qed

theorem pp_period_accuracy_witness:
  "I3C_CtrlTimingComputation reference_platform cleared_ctrl_config 48000000 12500000 1000000 50
     (I3C_PURE_I3C_BUS reference_platform) =
     Some (SUCCESS, \<lparr> SCLPPLowDuration = 1, SCLI3CHighDuration = 1, SCLODLowDuration = 18,
                      SCLI2CHighDuration = 0, BusFreeDuration = 10, BusIdleDuration = 46,
                      SDAHoldTime = 0 \<rparr>) \<and>
   period10ps 48000000 = Some 2083 \<and> period10ps 12500000 = Some 8000 \<and>
   unat (8000 :: u32) * 100 < 2 ^ 32 \<and>
   pp_period_deviation
     \<lparr> SCLPPLowDuration = 1, SCLI3CHighDuration = 1, SCLODLowDuration = 18,
       SCLI2CHighDuration = 0, BusFreeDuration = 10, BusIdleDuration = 46, SDAHoldTime = 0 \<rparr>
     2083 8000 < unat (2083 :: u32)"
proof -
  have r: "I3C_CtrlTimingComputation reference_platform cleared_ctrl_config 48000000 12500000
     1000000 50 (I3C_PURE_I3C_BUS reference_platform) =
     Some (SUCCESS, \<lparr> SCLPPLowDuration = 1, SCLI3CHighDuration = 1, SCLODLowDuration = 18,
                      SCLI2CHighDuration = 0, BusFreeDuration = 10, BusIdleDuration = 46,
                      SDAHoldTime = 0 \<rparr>)"
    using ctrl_48MHz_12500kHz [of reference_platform cleared_ctrl_config]
    by (simp add: cleared_ctrl_config_def write_config_def)
  have f: "unat (8000 :: u32) * 100 < 2 ^ 32"
    by simp
  from r f pp_period_accuracy [OF r period_48MHz period_12500kHz f] show ?thesis
    by (simp only: period_48MHz period_12500kHz simp_thms)
qed

section \<open>Where the controller computation has no result\<close>

text \<open>
  The divisors of the function are the three frequencies, the period of the clock
  source, twice that period and the constant 100. This section proves that the period
  of a nonzero clock source frequency is never zero and never \<open>2^31\<close>, so that the
  divisions of lines 153 to 299 always have a value, and then characterises the calls
  that divide by zero: they are the calls that pass the verification with a frequency
  of 0 left in a divisor that is reached.
\<close>

lemma period_quotient_upto_46:
  "list_all (\<lambda>i::int. ((100000000000 + i div 2) div i) mod 4294967296 \<noteq> 2147483648) [1..46]"
  by (simp add: upto_rec1)

lemma period_quotient_not_half_range:
  fixes n :: nat
  assumes "0 < n" "n < 47"
  shows "((100000000000 + n div 2) div n) mod 4294967296 \<noteq> 2147483648"
proof -
  from assms have "int n \<in> set [1..46]"
    by simp
  with period_quotient_upto_46
  have "((100000000000 + int n div 2) div int n) mod 4294967296 \<noteq> 2147483648"
    unfolding list_all_iff by blast
  moreover have "((100000000000 + int n div 2) div int n) mod 4294967296 =
      int (((100000000000 + n div 2) div n) mod 4294967296)"
    by (simp add: zdiv_int zmod_int)
  ultimately show ?thesis
    by linarith
qed

lemma period_value_not_half_range:
  assumes "f \<noteq> 0"
  shows "unat (period_value f) \<noteq> 2147483648"
proof (cases "unat f < 47")
  case True
  moreover have "0 < unat f"
    using assms by (simp add: unat_gt_0)
  ultimately show ?thesis
    using period_quotient_not_half_range [of "unat f"] by (simp add: unat_period_value [OF assms])
next
  case False
  then have "100000000000 + unat f div 2 < 2147483648 * unat f"
    by linarith
  then have "(100000000000 + unat f div 2) div unat f < 2147483648"
    using False less_mult_imp_div_less [of "100000000000 + unat f div 2" 2147483648 "unat f"]
    by simp
  then show ?thesis
    by (simp add: unat_period_value [OF assms])
qed

lemma twice_period_value_nonzero:
  assumes "f \<noteq> 0"
  shows "2 * period_value f \<noteq> 0"
proof
  assume z: "2 * period_value f = 0"
  let ?n = "unat (period_value f)"
  have lt: "?n < 4294967296"
    using unsigned_less [of "period_value f", where ?'a = nat] by simp
  have pos: "0 < ?n"
    using period_value_at_least_23 [OF assms] by linarith
  have "unat (2 * period_value f) = (2 * ?n) mod 4294967296"
    by (simp add: unat_word_ariths)
  with z have "(2 * ?n) mod 4294967296 = 0"
    by simp
  then obtain k where k: "2 * ?n = 4294967296 * k"
    by (auto simp add: mod_eq_0_iff_dvd dvd_def)
  from k lt have "4294967296 * k < 4294967296 * 2"
    by linarith
  then have "k < 2"
    by simp
  moreover from k pos have "k \<noteq> 0"
    by auto
  ultimately have "k = 1"
    by linarith
  with k have "?n = 2147483648"
    by simp
  with period_value_not_half_range [OF assms] show False
    by simp
qed

lemma scl_high_low_total:
  assumes "T \<noteq> 0"
  shows "scl_high_low P busType T pp d \<noteq> None"
  using assms by (simp add: scl_high_low_def udiv32_def Let_def)

lemma scl_open_drain_total:
  assumes "T \<noteq> 0"
  shows "scl_open_drain P busType T pp od d l \<noteq> None"
  using assms by (simp add: scl_open_drain_def Let_def)

lemma bus_free_total:
  assumes "2 * T \<noteq> 0"
  shows "bus_free P busType T lod \<noteq> None"
  using assms by (simp add: bus_free_def)

lemma scl_computation_total:
  assumes "T \<noteq> 0" "2 * T \<noteq> 0"
  shows "scl_computation P busType T pp od d \<noteq> None"
proof -
  obtain h l where hl: "scl_high_low P busType T pp d = Some (h, l)"
    using scl_high_low_total [OF assms(1), of P busType pp d] by auto
  obtain lod hi2c where od: "scl_open_drain P busType T pp od d (scllpp_correction T pp h l)
      = Some (lod, hi2c)"
    using scl_open_drain_total [OF assms(1), of P busType pp od d "scllpp_correction T pp h l"]
    by auto
  obtain fr where fr: "bus_free P busType T lod = Some fr"
    using bus_free_total [OF assms(2), of P busType lod] by auto
  show ?thesis
    using assms(1) by (simp add: scl_computation_def hl od fr one_microsecond_eq)
qed

text \<open>
  The controller computation has no result exactly when the verification passes and
  either the clock source frequency is 0, or the duty cycle is at most 50 and one of the
  two bus frequencies is 0.
\<close>

theorem ctrl_no_result_iff:
  "I3C_CtrlTimingComputation P pConfig clockSrcFreq i3cFreq i2cFreq dutyCycle busType = None \<longleftrightarrow>
     verify_parameters P clockSrcFreq i3cFreq i2cFreq busType = SUCCESS \<and>
     (clockSrcFreq = 0 \<or> (dutyCycle \<le> 50 \<and> (i3cFreq = 0 \<or> i2cFreq = 0)))"
proof (cases "verify_parameters P clockSrcFreq i3cFreq i2cFreq busType")
  case ERROR
  then show ?thesis
    by (simp add: ctrl_rejected)
next
  case SUCCESS
  show ?thesis
  proof (cases "clockSrcFreq = 0")
    case True
    then have "period10ps clockSrcFreq = None"
      by simp
    then have "I3C_CtrlTimingComputation P pConfig clockSrcFreq i3cFreq i2cFreq dutyCycle busType
        = None"
      by (rule ctrl_no_clock_period [OF SUCCESS])
    with SUCCESS True show ?thesis
      by simp
  next
    case False
    then have t: "period10ps clockSrcFreq = Some (period_value clockSrcFreq)"
      by simp
    have nz: "period_value clockSrcFreq \<noteq> 0" "2 * period_value clockSrcFreq \<noteq> 0"
      using False by (simp_all add: period_value_nonzero twice_period_value_nonzero)
    show ?thesis
    proof (cases "50 < dutyCycle")
      case True
      then have "period_check dutyCycle (period_value clockSrcFreq)"
        by (simp add: period_check_def)
      then have "I3C_CtrlTimingComputation P pConfig clockSrcFreq i3cFreq i2cFreq dutyCycle
          busType = Some (ERROR, pConfig)"
        by (rule ctrl_period_check [OF SUCCESS t])
      with True False show ?thesis
        by (simp add: not_le)
    next
      case duty: False
      with nz(1) have chk: "\<not> period_check dutyCycle (period_value clockSrcFreq)"
        by (simp add: period_check_def)
      note path = ctrl_computing [OF SUCCESS t chk]
      show ?thesis
      proof (cases "i3cFreq = 0 \<or> i2cFreq = 0")
        case True
        then have "I3C_CtrlTimingComputation P pConfig clockSrcFreq i3cFreq i2cFreq dutyCycle
            busType = None"
          unfolding path by (auto simp add: period10ps_eq)
        with SUCCESS True duty show ?thesis
          by (simp add: not_less)
      next
        case freqs: False
        obtain v where v: "scl_computation P busType (period_value clockSrcFreq)
            (period_value i3cFreq) (period_value i2cFreq) dutyCycle = Some v"
          using scl_computation_total [OF nz, of P busType "period_value i3cFreq"
              "period_value i2cFreq" dutyCycle] by auto
        have "I3C_CtrlTimingComputation P pConfig clockSrcFreq i3cFreq i2cFreq dutyCycle
            busType \<noteq> None"
          unfolding path using freqs by (simp add: v)
        with False freqs show ?thesis
          by simp
      qed
    qed
  qed
qed

text \<open>
  On the two bus types there is one such call: a pure bus, an I2C frequency of 0, and
  everything else in order. Line 142 is the only division by zero that a documented
  bus type can reach.
\<close>

theorem ctrl_no_result_on_bus_types:
  assumes "I3C_PURE_I3C_BUS P \<noteq> I3C_MIXED_BUS P"
    and "busType = I3C_PURE_I3C_BUS P \<or> busType = I3C_MIXED_BUS P"
  shows "I3C_CtrlTimingComputation P pConfig clockSrcFreq i3cFreq i2cFreq dutyCycle busType = None \<longleftrightarrow>
     busType = I3C_PURE_I3C_BUS P \<and> clockSrcFreq \<noteq> 0 \<and> i3cFreq \<noteq> 0 \<and> i2cFreq = 0 \<and>
     dutyCycle \<le> 50"
  using assms unfolding ctrl_no_result_iff verify_parameters_SUCCESS by auto

theorem ctrl_no_result_on_bus_types_witness:
  "I3C_PURE_I3C_BUS reference_platform \<noteq> I3C_MIXED_BUS reference_platform \<and>
   I3C_CtrlTimingComputation reference_platform cleared_ctrl_config 1000 12500000 0 50 0 = None \<and>
   I3C_CtrlTimingComputation reference_platform cleared_ctrl_config 48000000 12500000 1000000 50 0
     \<noteq> None"
  using ctrl_no_result_on_bus_types [of reference_platform 0 cleared_ctrl_config 1000 12500000 0 50]
    ctrl_no_result_on_bus_types [of reference_platform 0 cleared_ctrl_config 48000000 12500000
      1000000 50]
  by (simp add: reference_platform_sel)

text \<open>The target computation always has a result.\<close>

theorem tgt_has_result: "I3C_TgtTimingComputation tConfig clockSrcFreq \<noteq> None"
  by (simp add: tgt_unfold)

end
